theory Spec2Isabelle
  imports Main
begin

section \<open>JavaScript values of the expression tree\<close>

text \<open>
  The checker consumes a parsed tree of atoms and arrays.  \<open>Undef\<close> and \<open>Null\<close> are the
  JavaScript values \<^verbatim>\<open>undefined\<close> (what an out-of-range index or a missing property
  yields) and \<^verbatim>\<open>null\<close>.  The checker does only two things with a number \<open>n\<close>: it
  asks \<^verbatim>\<open>typeof n === 'number'\<close>, and it converts \<open>n\<close> to a string where a string is
  expected (a property key, the subject of a pattern, a message).  So \<open>Num s\<close> is the
  number whose \<^verbatim>\<open>String(n)\<close> is \<open>s\<close>: \<open>Num ''5''\<close> for 5, \<open>Num ''1e+21''\<close> for
  \<open>10\<^sup>2\<^sup>1\<close>.  (\<^verbatim>\<open>NaN\<close>, which is not equal to itself, is not a literal of the
  language.)
\<close>

datatype exp = Undef | Null | Num string | Str string | Bool bool | List "exp list"

section \<open>Type.js: the type model\<close>

text \<open>
  One constructor per class of Type.js; \<open>Undefined\<close> is the JavaScript \<^verbatim>\<open>undefined\<close>
  standing where a type object is expected (the result of an empty block, a missing
  property).

  \<^item> \<open>Prim s\<close>: an instance of the base class \<^verbatim>\<open>Type\<close>, \<^verbatim>\<open>new Type(s)\<close>.  The only
    instances are the five singletons \<^verbatim>\<open>Type.number\<close>, ..., \<^verbatim>\<open>Type.any\<close>, so
    reference identity with \<^verbatim>\<open>Type.any\<close> or \<^verbatim>\<open>Type.null\<close> is equality of the value.
  \<^item> \<open>Fn name paramTypes returnType\<close>: \<^verbatim>\<open>Type.Function\<close>.  The constructor sets
    \<^verbatim>\<open>this.name = this.getName()\<close>, and \<^verbatim>\<open>getName\<close> builds the canonical string in
    a local variable but returns \<^verbatim>\<open>this.name\<close>: a function type built without a
    name keeps the name \<^verbatim>\<open>null\<close>.
  \<^item> \<open>Alias name parent\<close>: \<^verbatim>\<open>Type.Alias\<close>.
  \<^item> \<open>Class env name superClass\<close>: \<^verbatim>\<open>Type.Class\<close>; \<open>env\<close> is the reference of the
    TypeEnvironment the constructor allocates, which also identifies the object.
  \<^item> \<open>Union id name optionTypes\<close>: \<^verbatim>\<open>Type.Union\<close>; \<open>id\<close> is the object's identity.
  \<^item> \<open>Generic id payload env\<close>: \<^verbatim>\<open>Type.GenericFunction\<close>.  The class body is empty, so
    the inherited constructor \<^verbatim>\<open>Type(name)\<close> stores the whole argument object
    (\<open>payload\<close> and the closure \<open>env\<close>) in \<^verbatim>\<open>this.name\<close>; the object has no other
    property.
\<close>

datatype ty =
    Undefined
  | Prim string
  | Fn exp "ty list" ty
  | Alias exp ty
  | Class nat exp ty
  | Union nat exp "ty list"
  | Generic nat exp nat

datatype error =
    JSTypeError
  | JSReferenceError string
  | UndefinedName string
  | UnknownType string
  | DuplicateTypeDeclaration string
  | UnknownBaseType string
  | OperatorArity
  | ArityMismatch nat nat
  | TypeMismatch ty ty
  | ReturnMismatch ty ty
  | MissingGenericActualTypes
  | UnknownExpression
  | OutOfFuel
  | Unmodelled string

text \<open>The value of the property \<^verbatim>\<open>name\<close>: a JavaScript value, or the argument object
  of a generic function (compared by identity).  Names are strings in every
  declaration of the language; an array in name position would be compared by
  identity in JavaScript and is compared by value here.\<close>

datatype tyname = Named exp | Anon nat

fun tname :: "ty \<Rightarrow> tyname" where
  "tname Undefined = Named Undef"
| "tname (Prim s) = Named (Str s)"
| "tname (Fn n ps r) = Named n"
| "tname (Alias n p) = Named n"
| "tname (Class e n s) = Named n"
| "tname (Union i n os) = Named n"
| "tname (Generic i p e) = Anon i"

text \<open>
  Reference identity of two type objects.  The code asks for it in three places:
  \<^verbatim>\<open>this === other\<close> in \<^verbatim>\<open>Type.Class.equals\<close> and \<^verbatim>\<open>Type.Union.equals\<close>,
  \<^verbatim>\<open>this.superClass != Type.null\<close>, and \<^verbatim>\<open>fn.paramTypes[index] === Type.any\<close>.  In
  each, one side is a Class, a Union, or the value of the property \<^verbatim>\<open>Type.null\<close> or
  \<^verbatim>\<open>Type.any\<close>; such a property holds the primitive singleton until a union or
  class declaration of that name replaces it (the alias form refuses a registered
  name, and \<^verbatim>\<open>Type.Function.fromString\<close> only writes under names of the form
  \<open>Fn<...>\<close>).  So the identity of a Function or an Alias is never asked.
\<close>

fun same_object :: "ty \<Rightarrow> ty \<Rightarrow> bool" where
  "same_object (Class e n s) (Class e' n' s') = (e = e')"
| "same_object (Union i n os) (Union i' n' os') = (i = i')"
| "same_object (Generic i p e) (Generic i' p' e') = (i = i')"
| "same_object (Prim s) (Prim s') = (s = s')"
| "same_object Undefined Undefined = True"
| "same_object t u = False"

text \<open>Delegating to \<^verbatim>\<open>other.equals(this)\<close> keeps both sizes: the flag pays for it.\<close>

fun swap_pending :: "ty \<Rightarrow> ty \<Rightarrow> nat" where
  "swap_pending (Alias n p) other = 0"
| "swap_pending (Fn n ps r) other = 0"
| "swap_pending this (Alias n p) = 1"
| "swap_pending (Prim s) (Union i n os) = 1"
| "swap_pending (Generic g p e) (Union i n os) = 1"
| "swap_pending this other = 0"

lemma swap_pending_le: "swap_pending t u \<le> Suc 0"
  by (cases t; cases u) simp_all

lemma swap_pending_bounds:
  "swap_pending t u < 2"
  "swap_pending t u \<le> Suc n"
  "swap_pending t u \<le> 3 + n"
  "swap_pending t u \<le> 4 + n"
  using swap_pending_le [of t u] by simp_all

text \<open>
  \<^verbatim>\<open>equals\<close> of every class, dispatched on the receiver.  A thrown exception is \<open>Inl\<close>.
  The first argument \<open>tnull\<close> is the value of the property \<^verbatim>\<open>Type.null\<close> at the time
  of the call, which \<^verbatim>\<open>Type.Class.equals\<close> reads.
  \<open>some_equals tnull os other\<close> is \<^verbatim>\<open>optionTypes.some(t => t.equals(other))\<close>,
  \<open>includesAll_loop tnull this types\<close> is the \<^verbatim>\<open>for\<close> loop of \<^verbatim>\<open>includesAll\<close>, and
  \<open>params_equal\<close> is the \<^verbatim>\<open>for\<close> loop of \<^verbatim>\<open>Type.Function.equals\<close>.
\<close>

function equals :: "ty \<Rightarrow> ty \<Rightarrow> ty \<Rightarrow> error + bool"
  and some_equals :: "ty \<Rightarrow> ty list \<Rightarrow> ty \<Rightarrow> error + bool"
  and includesAll_loop :: "ty \<Rightarrow> ty \<Rightarrow> ty list \<Rightarrow> error + bool"
  and params_equal :: "ty \<Rightarrow> ty list \<Rightarrow> ty list \<Rightarrow> error + bool"
where
  "equals tnull Undefined other = Inl JSTypeError"
| "equals tnull (Prim s) other =
     (case other of
        Alias n p \<Rightarrow> equals tnull other (Prim s)
      | Union i n os \<Rightarrow> equals tnull other (Prim s)
      | Undefined \<Rightarrow> Inl JSTypeError
      | _ \<Rightarrow> Inr (tname (Prim s) = tname other))"
| "equals tnull (Generic g p e) other =
     (case other of
        Alias n q \<Rightarrow> equals tnull other (Generic g p e)
      | Union i n os \<Rightarrow> equals tnull other (Generic g p e)
      | Undefined \<Rightarrow> Inl JSTypeError
      | _ \<Rightarrow> Inr (tname (Generic g p e) = tname other))"
| "equals tnull (Fn n ps r) other =
     (case other of
        Fn m qs r' \<Rightarrow>
          if length ps \<noteq> length qs then Inr False
          else (case params_equal tnull ps qs of
                  Inl err \<Rightarrow> Inl err
                | Inr False \<Rightarrow> Inr False
                | Inr True \<Rightarrow>
                    (case equals tnull r r' of
                       Inl err \<Rightarrow> Inl err
                     | Inr b \<Rightarrow> Inr b))
      | _ \<Rightarrow> Inl JSTypeError)"
| "equals tnull (Alias n p) other =
     (case other of
        Undefined \<Rightarrow> Inl JSTypeError
      | _ \<Rightarrow> if Named n = tname other then Inr True else equals tnull p other)"
| "equals tnull (Class e n s) other =
     (if same_object (Class e n s) other then Inr True
      else case other of
        Alias m q \<Rightarrow> equals tnull other (Class e n s)
      | _ \<Rightarrow> if \<not> same_object s tnull then equals tnull s other else Inr False)"
| "equals tnull (Union i n os) other =
     (if same_object (Union i n os) other then Inr True
      else case other of
        Alias m q \<Rightarrow> equals tnull other (Union i n os)
      | Union j m qs \<Rightarrow>
          if length qs \<noteq> length os then Inr False
          else includesAll_loop tnull (Union i n os) qs
      | _ \<Rightarrow> some_equals tnull os other)"
| "some_equals tnull [] other = Inr False"
| "some_equals tnull (t # ts) other =
     (case equals tnull t other of
        Inl err \<Rightarrow> Inl err
      | Inr True \<Rightarrow> Inr True
      | Inr False \<Rightarrow> some_equals tnull ts other)"
| "includesAll_loop tnull this [] = Inr True"
| "includesAll_loop tnull this (t # ts) =
     (case equals tnull this t of
        Inl err \<Rightarrow> Inl err
      | Inr False \<Rightarrow> Inr False
      | Inr True \<Rightarrow> includesAll_loop tnull this ts)"
| "params_equal tnull [] qs = Inr True"
| "params_equal tnull (p # ps) qs =
     (case equals tnull p (case qs of [] \<Rightarrow> Undefined | q # qs' \<Rightarrow> q) of
        Inl err \<Rightarrow> Inl err
      | Inr False \<Rightarrow> Inr False
      | Inr True \<Rightarrow> params_equal tnull ps (tl qs))"
  by pat_completeness auto

termination
  apply (relation "measure (\<lambda>x. case x of
      Inl (Inl (tnull, t, u)) \<Rightarrow> 2 * (size t + size u) + swap_pending t u
    | Inl (Inr (tnull, ts, u)) \<Rightarrow> 2 * (size_list size ts + size u) + 1
    | Inr (Inl (tnull, t, us)) \<Rightarrow> 2 * (size t + size_list size us) + 1
    | Inr (Inr (tnull, ps, qs)) \<Rightarrow> 2 * (size_list size ps + size_list size qs) + 1)")
  apply (auto split: list.splits ty.splits simp: swap_pending_bounds less_Suc_eq_le)
  done


section \<open>TypeEnvironment.js\<close>

text \<open>
  A TypeEnvironment object is a frame: the property \<^verbatim>\<open>record\<close> (an object used as a
  dictionary from property keys to types) and the property \<^verbatim>\<open>parent\<close> (another
  environment or \<^verbatim>\<open>null\<close>).  The dictionary is kept as the list of its
  assignments, latest first; \<open>recordOf\<close> reads it.  Environments are shared and
  mutated in place, so they live in a store indexed by references.
\<close>

record frame =
  entries :: "(string \<times> ty) list"
  parent :: "nat option"

definition recordOf :: "frame \<Rightarrow> string \<rightharpoonup> ty" where
  "recordOf f = map_of (entries f)"

text \<open>
  The state of a run: the store of environments, in the order of their allocation
  (the reference of an environment is its position); the type-valued own properties
  of the constructor function \<^verbatim>\<open>Type\<close> (the registry), again as the list of the
  assignments, latest first; and the counter that numbers Union and GenericFunction
  objects.
\<close>

record state =
  frames :: "frame list"
  types :: "(string \<times> ty) list"
  nextId :: nat

definition envs :: "state \<Rightarrow> nat \<Rightarrow> frame" where
  "envs st r = (if r < length (frames st) then frames st ! r
                else \<lparr>entries = [], parent = None\<rparr>)"

definition nextEnv :: "state \<Rightarrow> nat" where
  "nextEnv st = length (frames st)"

definition registry :: "state \<Rightarrow> string \<rightharpoonup> ty" where
  "registry st = map_of (types st)"

text \<open>\<^verbatim>\<open>new TypeEnvironment(record, parent)\<close>: returns the new reference.\<close>

definition newEnv :: "(string \<times> ty) list \<Rightarrow> nat option \<Rightarrow> state \<Rightarrow> nat \<times> state" where
  "newEnv r p st =
     (nextEnv st, st\<lparr>frames := frames st @ [\<lparr>entries = r, parent = p\<rparr>]\<rparr>)"

text \<open>
  An assignment \<^verbatim>\<open>record[name] = type_\<close> to a dictionary object.  Under the key
  \<open>__proto__\<close> it sets the prototype of the object and adds no property.
\<close>

definition assignKey :: "string \<Rightarrow> ty \<Rightarrow> (string \<times> ty) list \<Rightarrow> (string \<times> ty) list" where
  "assignKey name t r = (if name = ''__proto__'' then r else (name, t) # r)"

text \<open>\<^verbatim>\<open>define(name, type_)\<close>: \<^verbatim>\<open>this.record[name] = type_; return type_\<close>.\<close>

definition defineName :: "nat \<Rightarrow> string \<Rightarrow> ty \<Rightarrow> state \<Rightarrow> state" where
  "defineName env name t st =
     st\<lparr>frames := (frames st)[env := (envs st env)\<lparr>entries := assignKey name t (entries (envs st env))\<rparr>]\<rparr>"

text \<open>
  \<^verbatim>\<open>lookup(name)\<close>: throws the ReferenceError when the frame's own record lacks the
  name, and returns \<^verbatim>\<open>this.record[name]\<close> otherwise.  The body never reads
  \<^verbatim>\<open>this.parent\<close>; \<^verbatim>\<open>resolve\<close> has an empty body and its call is commented out.
  In a record that binds the name \<open>hasOwnProperty\<close> itself, the test calls a type
  object, which is a TypeError.
\<close>

definition lookup :: "state \<Rightarrow> nat \<Rightarrow> string \<Rightarrow> error + ty" where
  "lookup st env name =
     (if recordOf (envs st env) ''hasOwnProperty'' \<noteq> None then Inl JSTypeError
      else case recordOf (envs st env) name of
        None \<Rightarrow> Inl (UndefinedName name)
      | Some t \<Rightarrow> Inr t)"

text \<open>
  The reading of the specification, for comparison: the innermost frame of the chain
  that defines the name decides.  The fuel bounds the length of the chain.
\<close>

fun lookup_chain :: "nat \<Rightarrow> state \<Rightarrow> nat \<Rightarrow> string \<Rightarrow> error + ty" where
  "lookup_chain 0 st env name = Inl OutOfFuel"
| "lookup_chain (Suc k) st env name =
     (case recordOf (envs st env) name of
        Some t \<Rightarrow> Inr t
      | None \<Rightarrow>
          (case parent (envs st env) of
             None \<Rightarrow> Inl (UndefinedName name)
           | Some p \<Rightarrow> lookup_chain k st p name))"

section \<open>EvaTC.js: checks on types\<close>

text \<open>
  A value of a singleton property such as \<^verbatim>\<open>Type.any\<close> or \<^verbatim>\<open>Type.boolean\<close>, read off
  the registry when the code evaluates the property access.
\<close>

definition typeProp :: "state \<Rightarrow> string \<Rightarrow> ty" where
  "typeProp st k = (case registry st k of Some t \<Rightarrow> t | None \<Rightarrow> Undefined)"

text \<open>
  The messages of \<^verbatim>\<open>_throw\<close> and of \<^verbatim>\<open>_tcFunction\<close> interpolate types.  The
  conversion calls \<^verbatim>\<open>toString\<close>, which returns the property \<^verbatim>\<open>name\<close>; when that is
  an object (the argument object of a GenericFunction, or an array), the conversion
  throws a TypeError and the message is never thrown.
\<close>

definition printable :: "ty \<Rightarrow> bool" where
  "printable t = (case tname t of Named (List xs) \<Rightarrow> False | Named v \<Rightarrow> True | Anon i \<Rightarrow> False)"

text \<open>
  \<^verbatim>\<open>_expect(actualType, expectedType, value, exp)\<close>, with \<^verbatim>\<open>_throw\<close>.  In
  \<^verbatim>\<open>_checkFunctionCall\<close> the argument \<open>value\<close> is the actual type again; elsewhere
  it is an expression, whose conversion to a string does not throw.
\<close>

definition expect :: "ty \<Rightarrow> ty \<Rightarrow> ty \<Rightarrow> error + ty" where
  "expect tnull actualType expectedType =
     (case equals tnull actualType expectedType of
        Inl err \<Rightarrow> Inl err
      | Inr False \<Rightarrow>
          if printable expectedType \<and> printable actualType
          then Inl (TypeMismatch expectedType actualType)
          else Inl JSTypeError
      | Inr True \<Rightarrow> Inr actualType)"

text \<open>
  The \<^verbatim>\<open>forEach\<close> of \<^verbatim>\<open>_checkFunctionCall\<close> over the arguments, by index.  \<open>tany\<close>
  is the value of \<^verbatim>\<open>Type.any\<close> at the time of the call: a parameter is skipped when
  it is that very object.
\<close>

fun check_args :: "ty \<Rightarrow> ty \<Rightarrow> ty list \<Rightarrow> ty list \<Rightarrow> error + unit" where
  "check_args tany tnull ps [] = Inr ()"
| "check_args tany tnull ps (a # as) =
     (let p = (case ps of [] \<Rightarrow> Undefined | p # ps' \<Rightarrow> p) in
      if same_object p tany then check_args tany tnull (tl ps) as
      else (case expect tnull a p of
              Inl err \<Rightarrow> Inl err
            | Inr t \<Rightarrow> check_args tany tnull (tl ps) as))"

text \<open>
  \<^verbatim>\<open>_checkFunctionCall(fn, argTypes, env, exp)\<close>.  Reading
  \<^verbatim>\<open>fn.paramTypes.length\<close> throws a TypeError for every callee that is not a
  \<^verbatim>\<open>Type.Function\<close>.
\<close>

definition checkFunctionCall :: "ty \<Rightarrow> ty \<Rightarrow> ty \<Rightarrow> ty list \<Rightarrow> error + ty" where
  "checkFunctionCall tany tnull fn argTypes =
     (case fn of
        Fn n ps r \<Rightarrow>
          if length ps \<noteq> length argTypes
          then Inl (ArityMismatch (length ps) (length argTypes))
          else (case check_args tany tnull ps argTypes of
                  Inl err \<Rightarrow> Inl err
                | Inr u \<Rightarrow> Inr r)
      | _ \<Rightarrow> Inl JSTypeError)"

section \<open>JavaScript strings and the regular expressions of the checker\<close>

fun intercalate :: "string \<Rightarrow> string list \<Rightarrow> string" where
  "intercalate sep [] = []"
| "intercalate sep [x] = x"
| "intercalate sep (x # y # ys) = x @ sep @ intercalate sep (y # ys)"

text \<open>
  \<^verbatim>\<open>String(v)\<close>, which is also the coercion of \<open>v\<close> to a property key and to the
  subject of a regular expression: an array is the comma-joined strings of its
  elements, with \<^verbatim>\<open>undefined\<close> and \<^verbatim>\<open>null\<close> elements empty.
\<close>

fun jsToString :: "exp \<Rightarrow> string" where
  "jsToString Undef = ''undefined''"
| "jsToString Null = ''null''"
| "jsToString (Num s) = s"
| "jsToString (Str s) = s"
| "jsToString (Bool b) = (if b then ''true'' else ''false'')"
| "jsToString (List xs) =
     intercalate '','' (map (\<lambda>x. if x = Undef \<or> x = Null then [] else jsToString x) xs)"

text \<open>\<^verbatim>\<open>v[k]\<close> for a value that is neither \<^verbatim>\<open>undefined\<close> nor \<^verbatim>\<open>null\<close>: an element
  of an array, a one-character string of a string, \<^verbatim>\<open>undefined\<close> otherwise.\<close>

fun idx :: "exp \<Rightarrow> nat \<Rightarrow> exp" where
  "idx (List xs) k = (if k < length xs then xs ! k else Undef)"
| "idx (Str s) k = (if k < length s then Str [s ! k] else Undef)"
| "idx v k = Undef"

text \<open>Reading a property of \<^verbatim>\<open>undefined\<close> or \<^verbatim>\<open>null\<close> throws a TypeError.\<close>

definition nullish :: "exp \<Rightarrow> bool" where
  "nullish v = (v = Undef \<or> v = Null)"

text \<open>\<^verbatim>\<open>v.length\<close> of a string or an array.\<close>

fun jsLength :: "exp \<Rightarrow> nat option" where
  "jsLength (List xs) = Some (length xs)"
| "jsLength (Str s) = Some (length s)"
| "jsLength v = None"

text \<open>\<^verbatim>\<open>v.slice(1, -1)\<close> of a string or an array; no other value has the method.\<close>

definition slice1 :: "'a list \<Rightarrow> 'a list" where
  "slice1 xs = take (length xs - 2) (drop 1 xs)"

fun jsSlice1 :: "exp \<Rightarrow> exp option" where
  "jsSlice1 (Str s) = Some (Str (slice1 s))"
| "jsSlice1 (List xs) = Some (List (slice1 xs))"
| "jsSlice1 v = None"

definition isLower :: "char \<Rightarrow> bool" where
  "isLower c = (97 \<le> (of_char c :: nat) \<and> (of_char c :: nat) \<le> 122)"

definition isUpper :: "char \<Rightarrow> bool" where
  "isUpper c = (65 \<le> (of_char c :: nat) \<and> (of_char c :: nat) \<le> 90)"

definition isDigit :: "char \<Rightarrow> bool" where
  "isDigit c = (48 \<le> (of_char c :: nat) \<and> (of_char c :: nat) \<le> 57)"

text \<open>The class \<^verbatim>\<open>\w\<close>.\<close>

definition isWordChar :: "char \<Rightarrow> bool" where
  "isWordChar c = (isLower c \<or> isUpper c \<or> isDigit c \<or> c = CHR ''_'')"

text \<open>The class \<^verbatim>\<open>\s\<close>, on eight-bit characters: tab, line feed, vertical tab, form
  feed, carriage return, space and the no-break space.\<close>

definition isSpace :: "char \<Rightarrow> bool" where
  "isSpace c = ((9 \<le> (of_char c :: nat) \<and> (of_char c :: nat) \<le> 13)
                \<or> (of_char c :: nat) = 32 \<or> (of_char c :: nat) = 160)"

text \<open>\<^verbatim>\<open>/^[+\-*/]$/\<close>\<close>

definition isOperatorString :: "string \<Rightarrow> bool" where
  "isOperatorString s = (s = ''+'' \<or> s = ''-'' \<or> s = ''*'' \<or> s = ''/'')"

text \<open>\<^verbatim>\<open>/^[+\-*/<>=a-zA-Z0-9_:]+$/\<close>\<close>

definition isNameChar :: "char \<Rightarrow> bool" where
  "isNameChar c = (c \<in> set ''+-*/<>=_:'' \<or> isLower c \<or> isUpper c \<or> isDigit c)"

definition matchesName :: "string \<Rightarrow> bool" where
  "matchesName s = (s \<noteq> [] \<and> list_all isNameChar s)"

text \<open>\<^verbatim>\<open>/^<[^>]+>$/\<close>, and the group of \<^verbatim>\<open>/^<([^>]+)>$/\<close>.\<close>

definition matchesBracketed :: "string \<Rightarrow> bool" where
  "matchesBracketed s =
     (3 \<le> length s \<and> hd s = CHR ''<'' \<and> last s = CHR ''>'' \<and> CHR ''>'' \<notin> set (slice1 s))"

text \<open>
  The two patterns of \<^verbatim>\<open>Type.Function.fromString\<close>,
  \<^verbatim>\<open>/^Fn<(\w+)<([a-z,\s]+)>>$/\<close> and \<^verbatim>\<open>/^Fn<(\w+)>$/\<close>: the return type string and,
  for the first pattern, the parameter string.  Neither class contains \<open><\<close> or
  \<open>>\<close>, so each group is the longest run of its class.
\<close>

definition isParamChar :: "char \<Rightarrow> bool" where
  "isParamChar c = (isLower c \<or> c = CHR '','' \<or> isSpace c)"

definition parseFn :: "string \<Rightarrow> (string \<times> string option) option" where
  "parseFn s =
     (if take 3 s \<noteq> ''Fn<'' then None
      else let w = takeWhile isWordChar (drop 3 s);
               r = dropWhile isWordChar (drop 3 s)
           in if w = [] then None
              else if r = ''>'' then Some (w, None)
              else if take 1 r \<noteq> ''<'' then None
              else let p = takeWhile isParamChar (drop 1 r);
                       e = dropWhile isParamChar (drop 1 r)
                   in if p \<noteq> [] \<and> e = ''>>'' then Some (w, Some p) else None)"

text \<open>\<^verbatim>\<open>paramsString.split(/,\s*/g)\<close>\<close>

function splitParams :: "string \<Rightarrow> string \<Rightarrow> string list" where
  "splitParams cur [] = [rev cur]"
| "splitParams cur (c # cs) =
     (if c = CHR '','' then rev cur # splitParams [] (dropWhile isSpace cs)
      else splitParams (c # cur) cs)"
  by pat_completeness auto
termination
  by (relation "measure (\<lambda>(cur, s). length s)")
     (auto simp: le_imp_less_Suc length_dropWhile_le)

text \<open>\<^verbatim>\<open>typeStr.includes('Fn<')\<close> on a string.\<close>

fun includesFn :: "string \<Rightarrow> bool" where
  "includesFn [] = False"
| "includesFn (c # cs) = (take 3 (c # cs) = ''Fn<'' \<or> includesFn cs)"



section \<open>EvaTC.js: the checking engine\<close>

text \<open>
  A computation of the checker takes the state and returns a value or the thrown
  exception, with the state as the exception or the return left it.
\<close>

type_synonym 'a comp = "state \<Rightarrow> (error + 'a) \<times> state"

definition ret :: "'a \<Rightarrow> 'a comp" where
  "ret x st = (Inr x, st)"

definition throw :: "error \<Rightarrow> 'a comp" where
  "throw e st = (Inl e, st)"

definition andThen :: "'a comp \<Rightarrow> ('a \<Rightarrow> 'b comp) \<Rightarrow> 'b comp" where
  "andThen m f st = (case m st of (Inl e, st') \<Rightarrow> (Inl e, st') | (Inr x, st') \<Rightarrow> f x st')"

text \<open>A check that does not change the state.\<close>

definition pure :: "error + 'a \<Rightarrow> 'a comp" where
  "pure r st = (r, st)"

text \<open>The property \<^verbatim>\<open>Type.number\<close>, \<^verbatim>\<open>Type.boolean\<close>, ... as a computation.\<close>

definition typeM :: "string \<Rightarrow> ty comp" where
  "typeM k st = (Inr (typeProp st k), st)"

text \<open>\<^verbatim>\<open>_expect\<close>, \<^verbatim>\<open>equals\<close> and \<^verbatim>\<open>_checkFunctionCall\<close> in the current state.\<close>

definition expectM :: "ty \<Rightarrow> ty \<Rightarrow> ty comp" where
  "expectM actualType expectedType st =
     (expect (typeProp st ''null'') actualType expectedType, st)"

definition equalsM :: "ty \<Rightarrow> ty \<Rightarrow> bool comp" where
  "equalsM t u st = (equals (typeProp st ''null'') t u, st)"

definition checkFunctionCallM :: "ty \<Rightarrow> ty list \<Rightarrow> ty comp" where
  "checkFunctionCallM fn argTypes st =
     (checkFunctionCall (typeProp st ''any'') (typeProp st ''null'') fn argTypes, st)"

fun mapM :: "('a \<Rightarrow> 'b comp) \<Rightarrow> 'a list \<Rightarrow> 'b list comp" where
  "mapM f [] = ret []"
| "mapM f (x # xs) = andThen (f x) (\<lambda>y. andThen (mapM f xs) (\<lambda>ys. ret (y # ys)))"

subsection \<open>Type.fromString and the registry\<close>

text \<open>
  The registry is the set of type-valued own properties of the constructor function
  \<^verbatim>\<open>Type\<close>.  That function has nine more own properties, which are not types: the
  read-only \<^verbatim>\<open>length\<close>, \<^verbatim>\<open>name\<close> and \<^verbatim>\<open>prototype\<close>, the static method
  \<^verbatim>\<open>fromString\<close>, and the five subclasses; and it inherits the properties of
  functions and objects.  Where the code's behaviour on one of these names is simple
  it is modelled; where such a value would start to flow as a type, or a subclass,
  \<^verbatim>\<open>fromString\<close> or the prototype of \<^verbatim>\<open>Type\<close> would be replaced, the model stops
  with \<open>Unmodelled\<close>, which no statement below takes for a result of the code.
\<close>

definition readonlyNames :: "string list" where
  "readonlyNames = [''length'', ''name'', ''prototype'']"

definition overwritableNames :: "string list" where
  "overwritableNames =
     [''fromString'', ''Function'', ''Alias'', ''Class'', ''Union'', ''GenericFunction'']"

definition reserved :: "string \<Rightarrow> bool" where
  "reserved k = (k \<in> set readonlyNames \<or> k \<in> set overwritableNames)"

definition inheritedNames :: "string list" where
  "inheritedNames =
     [''constructor'', ''toString'', ''toLocaleString'', ''valueOf'', ''hasOwnProperty'',
      ''isPrototypeOf'', ''propertyIsEnumerable'', ''__proto__'', ''__defineGetter__'',
      ''__defineSetter__'', ''__lookupGetter__'', ''__lookupSetter__'', ''apply'', ''bind'',
      ''call'', ''arguments'', ''caller'']"

text \<open>
  What the property \<open>k\<close> of \<^verbatim>\<open>Type\<close> is: a registered type, another own property,
  an inherited property, or nothing.
\<close>

datatype slot = OwnType ty | OwnOther | Inherited | Absent

definition slotOf :: "state \<Rightarrow> string \<Rightarrow> slot" where
  "slotOf st k =
     (if reserved k then OwnOther
      else case registry st k of
        Some t \<Rightarrow> OwnType t
      | None \<Rightarrow> if k \<in> set inheritedNames then Inherited else Absent)"

text \<open>
  \<^verbatim>\<open>Type.hasOwnProperty\<close> is the inherited method until a declaration registers a
  type under that very name; from then on the call is a TypeError.
\<close>

definition hasOwnPropertyBroken :: "state \<Rightarrow> bool" where
  "hasOwnPropertyBroken st = (registry st ''hasOwnProperty'' \<noteq> None)"

definition setType :: "exp \<Rightarrow> ty \<Rightarrow> state \<Rightarrow> state" where
  "setType name t st = st\<lparr>types := (jsToString name, t) # types st\<rparr>"

text \<open>
  The assignment \<^verbatim>\<open>Type[name] = t\<close>.  The code of a class body is strict, so the
  assignment to a read-only property throws a TypeError.
\<close>

definition assignType :: "exp \<Rightarrow> ty \<Rightarrow> unit comp" where
  "assignType name t st =
     (if jsToString name \<in> set readonlyNames then (Inl JSTypeError, st)
      else if jsToString name \<in> set overwritableNames \<or> jsToString name = ''__proto__''
      then (Inl (Unmodelled (jsToString name)), st)
      else (Inr (), setType name t st))"

text \<open>
  \<^verbatim>\<open>Type.fromString\<close> on a captured group of the patterns of
  \<^verbatim>\<open>Type.Function.fromString\<close>: such a string has no \<open><\<close>, so after the registry
  miss \<^verbatim>\<open>includes('Fn<')\<close> is false and the unknown type is thrown.
\<close>

definition fromString_group :: "string \<Rightarrow> ty comp" where
  "fromString_group s st =
     (if hasOwnPropertyBroken st then (Inl JSTypeError, st)
      else case slotOf st s of
        OwnType t \<Rightarrow> (Inr t, st)
      | OwnOther \<Rightarrow> (Inl (Unmodelled s), st)
      | _ \<Rightarrow> (Inl (UnknownType s), st))"

text \<open>
  \<^verbatim>\<open>Type.Function.fromString(typeStr)\<close>, entered after the registry miss of
  \<^verbatim>\<open>Type.fromString\<close>: the parameter types are resolved before the return type, and
  the new Function, named \<open>typeStr\<close>, is memoized in the registry (under a key of the
  form \<open>Fn<...>\<close>).
\<close>

definition Function_fromString :: "exp \<Rightarrow> ty comp" where
  "Function_fromString typeStr =
     (case parseFn (jsToString typeStr) of
        Some (returnTypeStr, Some paramsString) \<Rightarrow>
          andThen (mapM fromString_group (splitParams [] paramsString)) (\<lambda>paramTypes.
          andThen (fromString_group returnTypeStr) (\<lambda>returnType.
          (\<lambda>st. (Inr (Fn typeStr paramTypes returnType),
                  setType typeStr (Fn typeStr paramTypes returnType) st))))
      | Some (returnTypeStr, None) \<Rightarrow>
          andThen (fromString_group returnTypeStr) (\<lambda>returnType.
          (\<lambda>st. (Inr (Fn typeStr [] returnType),
                  setType typeStr (Fn typeStr [] returnType) st)))
      | None \<Rightarrow> throw (UnknownType (jsToString typeStr)))"

text \<open>
  \<^verbatim>\<open>Type.fromString(typeStr)\<close>.  \<^verbatim>\<open>includes\<close> is the substring test on a string and
  the element test on an array; \<^verbatim>\<open>undefined\<close>, \<^verbatim>\<open>null\<close>, numbers and booleans
  have no such method.
\<close>

definition fromString :: "exp \<Rightarrow> ty comp" where
  "fromString typeStr st =
     (if hasOwnPropertyBroken st then (Inl JSTypeError, st)
      else case slotOf st (jsToString typeStr) of
        OwnType t \<Rightarrow> (Inr t, st)
      | OwnOther \<Rightarrow> (Inl (Unmodelled (jsToString typeStr)), st)
      | _ \<Rightarrow>
          (case typeStr of
             Str s \<Rightarrow> if includesFn s then Function_fromString typeStr st
                      else (Inl (UnknownType s), st)
           | List xs \<Rightarrow> if Str ''Fn<'' \<in> set xs then Function_fromString typeStr st
                        else (Inl (UnknownType (jsToString typeStr)), st)
           | _ \<Rightarrow> (Inl JSTypeError, st)))"

subsection \<open>Predicates on expressions\<close>

definition isNumber :: "exp \<Rightarrow> bool" where
  "isNumber e = (case e of Num i \<Rightarrow> True | _ \<Rightarrow> False)"

definition isString :: "exp \<Rightarrow> bool" where
  "isString e = (case e of Str s \<Rightarrow> s \<noteq> [] \<and> hd s = CHR 0x22 \<and> last s = CHR 0x22 | _ \<Rightarrow> False)"

definition isBoolean :: "exp \<Rightarrow> bool" where
  "isBoolean e = (case e of Bool b \<Rightarrow> True | Str s \<Rightarrow> s = ''true'' \<or> s = ''false'' | _ \<Rightarrow> False)"

text \<open>\<^verbatim>\<open>_isBinary\<close>: the pattern is tested on \<^verbatim>\<open>String(exp[0])\<close>.\<close>

definition isBinary :: "exp \<Rightarrow> bool" where
  "isBinary e = isOperatorString (jsToString (idx e 0))"

definition isBooleanBinary :: "exp \<Rightarrow> bool" where
  "isBooleanBinary e =
     (idx e 0 \<in> {Str ''=='', Str ''!='', Str ''>='', Str ''<='', Str ''>'', Str ''<''})"

definition isVariableName :: "exp \<Rightarrow> bool" where
  "isVariableName e = (case e of Str s \<Rightarrow> matchesName s | _ \<Rightarrow> False)"

definition isGenericLambdaFunction :: "exp \<Rightarrow> bool" where
  "isGenericLambdaFunction e = (jsLength e = Some 6 \<and> matchesBracketed (jsToString (idx e 1)))"

definition isGenericDefFunction :: "exp \<Rightarrow> bool" where
  "isGenericDefFunction e = (jsLength e = Some 7 \<and> matchesBracketed (jsToString (idx e 2)))"

text \<open>\<^verbatim>\<open>_transformDefToVarLambda\<close>\<close>

definition transformDefToVarLambda :: "exp \<Rightarrow> exp" where
  "transformDefToVarLambda e =
     (if isGenericDefFunction e
      then List [Str ''var'', idx e 1,
                 List [Str ''lambda'', idx e 2, idx e 3, idx e 4, idx e 5, idx e 6]]
      else List [Str ''var'', idx e 1,
                 List [Str ''lambda'', idx e 2, idx e 3, idx e 4, idx e 5]])"

text \<open>
  \<^verbatim>\<open>_isTypeCastCondition\<close>: \<^verbatim>\<open>const [op, lhs] = condition\<close> throws unless the
  condition is iterable, and \<^verbatim>\<open>lhs[0]\<close> is only read when \<open>op\<close> is \<open>==\<close>.
\<close>

definition isTypeCastCondition :: "exp \<Rightarrow> error + bool" where
  "isTypeCastCondition condition =
     (case condition of
        List xs \<Rightarrow>
          if idx condition 0 = Str ''==''
          then (if nullish (idx condition 1) then Inl JSTypeError
                else Inr (idx (idx condition 1) 0 = Str ''typeof''))
          else Inr False
      | Str s \<Rightarrow> Inr False
      | _ \<Rightarrow> Inl JSTypeError)"

text \<open>
  \<^verbatim>\<open>_getSpecifiedType\<close>, called when the test above is true: the name is
  \<^verbatim>\<open>condition[1][1]\<close> and the type string is \<^verbatim>\<open>condition[2].slice(1, -1)\<close>.
\<close>

definition getSpecifiedType :: "exp \<Rightarrow> error + exp \<times> exp" where
  "getSpecifiedType condition =
     (case jsSlice1 (idx condition 2) of
        None \<Rightarrow> Inl JSTypeError
      | Some specificType \<Rightarrow> Inr (idx (idx condition 1) 1, specificType))"

text \<open>\<^verbatim>\<open>_checkArity(exp, 2)\<close>\<close>

definition checkArity2 :: "exp \<Rightarrow> unit comp" where
  "checkArity2 e = (if jsLength e = Some 3 then ret () else throw OperatorArity)"

text \<open>\<^verbatim>\<open>classType.getField(name)\<close>: only a Class has the method.\<close>

definition getField :: "ty \<Rightarrow> exp \<Rightarrow> ty comp" where
  "getField t name st =
     (case t of
        Class e n s \<Rightarrow> (lookup st e (jsToString name), st)
      | _ \<Rightarrow> (Inl JSTypeError, st))"

text \<open>
  The parameter list of \<^verbatim>\<open>_tcFunction\<close> and of the \<^verbatim>\<open>def\<close> branch: every element is
  destructured as \<^verbatim>\<open>[name, typeStr]\<close>, which needs a string or an array, and only an
  array has \<^verbatim>\<open>forEach\<close> and \<^verbatim>\<open>map\<close>.
\<close>

definition paramPair :: "exp \<Rightarrow> (exp \<times> ty) comp" where
  "paramPair p =
     (case p of
        List xs \<Rightarrow> andThen (fromString (idx p 1)) (\<lambda>t. ret (idx p 0, t))
      | Str s \<Rightarrow> andThen (fromString (idx p 1)) (\<lambda>t. ret (idx p 0, t))
      | _ \<Rightarrow> throw JSTypeError)"

definition paramPairs :: "exp \<Rightarrow> (exp \<times> ty) list comp" where
  "paramPairs params =
     (case params of
        List ps \<Rightarrow> mapM paramPair ps
      | _ \<Rightarrow> throw JSTypeError)"

text \<open>The record \<^verbatim>\<open>paramsRecord\<close>: later parameters overwrite earlier ones.\<close>

fun paramsRecord :: "(exp \<times> ty) list \<Rightarrow> (string \<times> ty) list \<Rightarrow> (string \<times> ty) list" where
  "paramsRecord [] r = r"
| "paramsRecord ((name, t) # ps) r = paramsRecord ps (assignKey (jsToString name) t r)"



subsection \<open>The branches of \<^verbatim>\<open>tc\<close>\<close>

text \<open>
  Every branch takes \<open>rec\<close>, the recursive call \<^verbatim>\<open>this.tc\<close>, as a parameter; \<open>tc\<close>
  below ties the knot.
\<close>

type_synonym checker = "exp \<Rightarrow> nat \<Rightarrow> ty comp"

text \<open>\<^verbatim>\<open>_binary\<close> and \<^verbatim>\<open>_booleanBinary\<close>: \<^verbatim>\<open>_expect(t2, t1, ...)\<close> returns \<open>t2\<close>.\<close>

definition binary :: "checker \<Rightarrow> exp \<Rightarrow> nat \<Rightarrow> ty comp" where
  "binary rec e env =
     andThen (checkArity2 e) (\<lambda>u.
     andThen (rec (idx e 1) env) (\<lambda>t1.
     andThen (rec (idx e 2) env) (\<lambda>t2.
     expectM t2 t1)))"

definition booleanBinary :: "checker \<Rightarrow> exp \<Rightarrow> nat \<Rightarrow> ty comp" where
  "booleanBinary rec e env =
     andThen (checkArity2 e) (\<lambda>u.
     andThen (rec (idx e 1) env) (\<lambda>t1.
     andThen (rec (idx e 2) env) (\<lambda>t2.
     andThen (expectM t2 t1) (\<lambda>t.
     typeM ''boolean''))))"

text \<open>
  \<^verbatim>\<open>(type name base)\<close>.  The union form registers the new Union without looking at
  the registry; the alias form throws when \<open>name\<close> is an own property of \<^verbatim>\<open>Type\<close>
  (the message interpolates the registered value) or \<open>base\<close> is not.
\<close>

definition tcType :: "exp \<Rightarrow> ty comp" where
  "tcType e =
     (let name = idx e 1; base = idx e 2 in
      if nullish base then throw JSTypeError
      else if idx base 0 = Str ''or''
      then andThen (mapM fromString (case base of List xs \<Rightarrow> tl xs | _ \<Rightarrow> [])) (\<lambda>optionTypes.
           andThen (\<lambda>st. (Inr (Union (nextId st) name optionTypes),
                          st\<lparr>nextId := Suc (nextId st)\<rparr>)) (\<lambda>union.
           andThen (assignType name union) (\<lambda>u.
           ret union)))
      else (\<lambda>st.
        if hasOwnPropertyBroken st then (Inl JSTypeError, st)
        else case slotOf st (jsToString name) of
          OwnOther \<Rightarrow> (Inl (DuplicateTypeDeclaration (jsToString name)), st)
        | OwnType t \<Rightarrow>
            if printable t then (Inl (DuplicateTypeDeclaration (jsToString name)), st)
            else (Inl JSTypeError, st)
        | _ \<Rightarrow>
            (case slotOf st (jsToString base) of
               OwnType parentType \<Rightarrow>
                 andThen (assignType name (Alias name parentType)) (\<lambda>u.
                 ret (Alias name parentType)) st
             | OwnOther \<Rightarrow> (Inl (Unmodelled (jsToString base)), st)
             | _ \<Rightarrow> (Inl (UnknownBaseType (jsToString base)), st))))"

text \<open>\<^verbatim>\<open>_tcBlock\<close>: the result of the last expression, \<^verbatim>\<open>undefined\<close> for none.\<close>

fun tcBlock_loop :: "checker \<Rightarrow> nat \<Rightarrow> ty \<Rightarrow> exp list \<Rightarrow> ty comp" where
  "tcBlock_loop rec env result [] = ret result"
| "tcBlock_loop rec env result (e # es) =
     andThen (rec e env) (\<lambda>t. tcBlock_loop rec env t es)"

definition tcBlock :: "checker \<Rightarrow> exp \<Rightarrow> nat \<Rightarrow> ty comp" where
  "tcBlock rec block env =
     tcBlock_loop rec env Undefined (case block of List xs \<Rightarrow> tl xs | _ \<Rightarrow> [])"

definition tcBody :: "checker \<Rightarrow> exp \<Rightarrow> nat \<Rightarrow> ty comp" where
  "tcBody rec body env =
     (if nullish body then throw JSTypeError
      else if idx body 0 = Str ''begin'' then tcBlock rec body env
      else rec body env)"

text \<open>
  \<^verbatim>\<open>(class name super body)\<close>: a missing registry entry for the superclass name is
  \<^verbatim>\<open>undefined\<close>, for which the constructor's default \<^verbatim>\<open>Type.null\<close> applies; the
  class environment's parent is \<^verbatim>\<open>superClass.env\<close>, which only a Class has, unless
  the superclass is \<^verbatim>\<open>Type.null\<close>.  The name is defined in \<open>env\<close> and then assigned
  in the registry, without a test.
\<close>

definition tcClass :: "checker \<Rightarrow> exp \<Rightarrow> nat \<Rightarrow> ty comp" where
  "tcClass rec e env =
     andThen (\<lambda>st. case slotOf st (jsToString (idx e 2)) of
                     OwnType t \<Rightarrow> (Inr t, st)
                   | Absent \<Rightarrow> (Inr (typeProp st ''null''), st)
                   | _ \<Rightarrow> (Inl (Unmodelled (jsToString (idx e 2))), st)) (\<lambda>superClass.
     andThen (\<lambda>st. case newEnv []
                       (if same_object superClass (typeProp st ''null'') then None
                        else case superClass of Class se sn ss \<Rightarrow> Some se | _ \<Rightarrow> None) st of
                     (r, st') \<Rightarrow> (Inr r, st')) (\<lambda>cenv.
     andThen (\<lambda>st. (Inr (),
                defineName env (jsToString (idx e 1)) (Class cenv (idx e 1) superClass) st)) (\<lambda>u.
     andThen (assignType (idx e 1) (Class cenv (idx e 1) superClass)) (\<lambda>u.
     andThen (tcBody rec (idx e 3) cenv) (\<lambda>t.
     ret (Class cenv (idx e 1) superClass))))))"

text \<open>
  \<^verbatim>\<open>(new className args...)\<close>.  The message of the unknown-class throw mentions the
  undeclared variable \<^verbatim>\<open>name\<close>, so what is thrown is a ReferenceError.  A value
  that is not a Class has no \<^verbatim>\<open>getField\<close>; the arguments are checked before the
  call of that method.
\<close>

definition tcNew :: "checker \<Rightarrow> exp \<Rightarrow> nat \<Rightarrow> ty comp" where
  "tcNew rec e env =
     (\<lambda>st. case slotOf st (jsToString (idx e 1)) of
        Absent \<Rightarrow> (Inl (JSReferenceError ''name''), st)
      | Inherited \<Rightarrow> (Inl (Unmodelled (jsToString (idx e 1))), st)
      | OwnOther \<Rightarrow>
          andThen (mapM (\<lambda>arg. rec arg env) (case e of List xs \<Rightarrow> drop 2 xs | _ \<Rightarrow> [])) (\<lambda>argTypes.
          throw JSTypeError) st
      | OwnType classType \<Rightarrow>
          andThen (mapM (\<lambda>arg. rec arg env) (case e of List xs \<Rightarrow> drop 2 xs | _ \<Rightarrow> [])) (\<lambda>argTypes.
          andThen (getField classType (Str ''constructor'')) (\<lambda>ctor.
          checkFunctionCallM ctor (classType # argTypes))) st)"

text \<open>\<^verbatim>\<open>(super className)\<close>: the property \<^verbatim>\<open>superClass\<close>, which only a Class has.\<close>

definition tcSuper :: "exp \<Rightarrow> ty comp" where
  "tcSuper e =
     (\<lambda>st. case slotOf st (jsToString (idx e 1)) of
        Absent \<Rightarrow> (Inl (JSReferenceError ''name''), st)
      | Inherited \<Rightarrow> (Inl (Unmodelled (jsToString (idx e 1))), st)
      | OwnOther \<Rightarrow> (Inr Undefined, st)
      | OwnType (Class ce cn superClass) \<Rightarrow> (Inr superClass, st)
      | OwnType t \<Rightarrow> (Inr Undefined, st))"

definition tcProp :: "checker \<Rightarrow> exp \<Rightarrow> nat \<Rightarrow> ty comp" where
  "tcProp rec e env =
     andThen (rec (idx e 1) env) (\<lambda>instanceType. getField instanceType (idx e 2))"

text \<open>\<^verbatim>\<open>(var name value)\<close> and \<^verbatim>\<open>(var (name type) value)\<close>.\<close>

definition tcVar :: "checker \<Rightarrow> exp \<Rightarrow> nat \<Rightarrow> ty comp" where
  "tcVar rec e env =
     (let name = idx e 1; value = idx e 2 in
      andThen (rec value env) (\<lambda>valueType.
        case name of
          List xs \<Rightarrow>
            andThen (fromString (idx name 1)) (\<lambda>expectedType.
            andThen (expectM valueType expectedType) (\<lambda>t.
            (\<lambda>st. (Inr expectedType, defineName env (jsToString (idx name 0)) expectedType st))))
        | _ \<Rightarrow> (\<lambda>st. (Inr valueType, defineName env (jsToString name) valueType st))))"

definition tcSet :: "checker \<Rightarrow> exp \<Rightarrow> nat \<Rightarrow> ty comp" where
  "tcSet rec e env =
     (let ref = idx e 1; value = idx e 2 in
      if nullish ref then throw JSTypeError
      else if idx ref 0 = Str ''prop''
      then andThen (rec (idx ref 1) env) (\<lambda>instanceType.
           andThen (rec value env) (\<lambda>valueType.
           andThen (getField instanceType (idx ref 2)) (\<lambda>propType.
           expectM valueType propType)))
      else andThen (rec value env) (\<lambda>valueType.
           andThen (rec ref env) (\<lambda>varType.
           expectM valueType varType)))"

text \<open>
  \<^verbatim>\<open>(if condition consequent alternate)\<close>: the consequent is checked in
  \<open>consequentEnv\<close>, which is \<open>env\<close> unless \<^verbatim>\<open>_isTypeCastCondition\<close> holds; then it is
  a new environment with the single binding of \<^verbatim>\<open>_getSpecifiedType\<close> and parent
  \<open>env\<close>.  The alternate is checked in \<open>env\<close>, and \<^verbatim>\<open>_expect(t3, t2, ...)\<close> returns
  \<open>t3\<close>.
\<close>

definition consequentEnv :: "exp \<Rightarrow> nat \<Rightarrow> nat comp" where
  "consequentEnv condition env =
     andThen (pure (isTypeCastCondition condition)) (\<lambda>cast.
       if cast
       then andThen (pure (getSpecifiedType condition)) (\<lambda>(name, specificType).
            andThen (fromString specificType) (\<lambda>t.
            (\<lambda>st. case newEnv [(jsToString name, t)] (Some env) st of
                    (r, st') \<Rightarrow> (Inr r, st'))))
       else ret env)"

definition tcIf :: "checker \<Rightarrow> exp \<Rightarrow> nat \<Rightarrow> ty comp" where
  "tcIf rec e env =
     (let condition = idx e 1; consequent = idx e 2; alternate = idx e 3 in
      andThen (rec condition env) (\<lambda>t1.
      andThen (typeM ''boolean'') (\<lambda>tboolean.
      andThen (expectM t1 tboolean) (\<lambda>u.
      andThen (consequentEnv condition env) (\<lambda>cenv.
      andThen (rec consequent cenv) (\<lambda>t2.
      andThen (rec alternate env) (\<lambda>t3.
      expectM t3 t2)))))))"

definition tcWhile :: "checker \<Rightarrow> exp \<Rightarrow> nat \<Rightarrow> ty comp" where
  "tcWhile rec e env =
     andThen (rec (idx e 1) env) (\<lambda>t1.
     andThen (typeM ''boolean'') (\<lambda>tboolean.
     andThen (expectM t1 tboolean) (\<lambda>u.
     rec (idx e 2) env)))"

text \<open>
  \<^verbatim>\<open>_tcFunction(params, returnTypeStr, body, env)\<close>.  The Function it returns is
  built without a name.  The message of the return-type error interpolates both
  types.
\<close>

definition tcFunction :: "checker \<Rightarrow> exp \<Rightarrow> exp \<Rightarrow> exp \<Rightarrow> nat \<Rightarrow> ty comp" where
  "tcFunction rec params returnTypeStr body env =
     andThen (fromString returnTypeStr) (\<lambda>returnType.
     andThen (paramPairs params) (\<lambda>pairs.
     andThen (\<lambda>st. case newEnv (paramsRecord pairs []) (Some env) st of
                     (r, st') \<Rightarrow> (Inr r, st')) (\<lambda>fnEnv.
     andThen (tcBody rec body fnEnv) (\<lambda>actualReturnType.
     andThen (equalsM returnType actualReturnType) (\<lambda>same.
       if same then ret (Fn Null (map snd pairs) returnType)
       else if printable returnType \<and> printable actualReturnType
       then throw (ReturnMismatch returnType actualReturnType)
       else throw JSTypeError)))))"

text \<open>
  \<^verbatim>\<open>(def ...)\<close>: unless the definition is generic, the name is first bound in \<open>env\<close>
  to a Function built from the declared parameter and return types; then the
  \<^verbatim>\<open>(var name (lambda ...))\<close> form is checked.
\<close>

definition tcDef :: "checker \<Rightarrow> exp \<Rightarrow> nat \<Rightarrow> ty comp" where
  "tcDef rec e env =
     (let varExp = transformDefToVarLambda e in
      if isGenericDefFunction e then rec varExp env
      else andThen (paramPairs (idx e 2)) (\<lambda>pairs.
           andThen (fromString (idx e 4)) (\<lambda>returnType.
           andThen (\<lambda>st. (Inr (),
                defineName env (jsToString (idx e 1)) (Fn Null (map snd pairs) returnType) st)) (\<lambda>u.
           rec varExp env))))"

text \<open>
  \<^verbatim>\<open>(lambda ...)\<close>.  \<^verbatim>\<open>_createGenericFunctionType\<close> calls \<^verbatim>\<open>slice\<close> on the
  generic-parameter string and allocates the GenericFunction object.
\<close>

definition tcLambda :: "checker \<Rightarrow> exp \<Rightarrow> nat \<Rightarrow> ty comp" where
  "tcLambda rec e env =
     (if isGenericLambdaFunction e
      then (case jsSlice1 (idx e 1) of
              None \<Rightarrow> throw JSTypeError
            | Some genericTypesStr \<Rightarrow>
                (\<lambda>st. (Inr (Generic (nextId st)
                              (List [genericTypesStr, idx e 2, idx e 5, idx e 4]) env),
                        st\<lparr>nextId := Suc (nextId st)\<rparr>)))
      else tcFunction rec (idx e 1) (idx e 3) (idx e 4) env)"

text \<open>
  A call \<^verbatim>\<open>(fn args...)\<close>.  For a GenericFunction callee,
  \<^verbatim>\<open>_extractActulCallTypes\<close> throws when \<^verbatim>\<open>exp[1]\<close> is not a bracketed list;
  otherwise \<^verbatim>\<open>_getGenericTypesMap(fn.genericTypes, actualTypes)\<close> reads
  \<^verbatim>\<open>genericTypes.length\<close>, and a GenericFunction object has no property
  \<^verbatim>\<open>genericTypes\<close>: a TypeError.
\<close>

definition tcCall :: "checker \<Rightarrow> exp \<Rightarrow> nat \<Rightarrow> ty comp" where
  "tcCall rec e env =
     andThen (rec (idx e 0) env) (\<lambda>fn.
       case fn of
         Generic g payload closure \<Rightarrow>
           if matchesBracketed (jsToString (idx e 1)) then throw JSTypeError
           else throw MissingGenericActualTypes
       | _ \<Rightarrow>
           andThen (mapM (\<lambda>arg. rec arg env) (case e of List xs \<Rightarrow> tl xs | _ \<Rightarrow> [])) (\<lambda>argTypes.
           checkFunctionCallM fn argTypes))"

subsection \<open>\<^verbatim>\<open>tc\<close>\<close>

text \<open>The dispatch of \<^verbatim>\<open>tc(exp, env)\<close>, in the order of the source.\<close>

definition tc_step :: "checker \<Rightarrow> exp \<Rightarrow> nat \<Rightarrow> ty comp" where
  "tc_step rec e env =
     (if isNumber e then typeM ''number''
      else if isString e then typeM ''string''
      else if isBoolean e then typeM ''boolean''
      else if nullish e then throw JSTypeError
      else if isBinary e then binary rec e env
      else if isBooleanBinary e then booleanBinary rec e env
      else if idx e 0 = Str ''type'' then tcType e
      else if idx e 0 = Str ''class'' then tcClass rec e env
      else if idx e 0 = Str ''new'' then tcNew rec e env
      else if idx e 0 = Str ''super'' then tcSuper e
      else if idx e 0 = Str ''prop'' then tcProp rec e env
      else if idx e 0 = Str ''var'' then tcVar rec e env
      else if isVariableName e then (\<lambda>st. (lookup st env (jsToString e), st))
      else if idx e 0 = Str ''set'' then tcSet rec e env
      else if idx e 0 = Str ''begin''
      then andThen (\<lambda>st. case newEnv [] (Some env) st of (r, st') \<Rightarrow> (Inr r, st'))
             (\<lambda>blockEnv. tcBlock rec e blockEnv)
      else if idx e 0 = Str ''if'' then tcIf rec e env
      else if idx e 0 = Str ''while'' then tcWhile rec e env
      else if idx e 0 = Str ''def'' then tcDef rec e env
      else if idx e 0 = Str ''lambda'' then tcLambda rec e env
      else (case e of
              List xs \<Rightarrow> tcCall rec e env
            | _ \<Rightarrow> throw UnknownExpression))"

text \<open>
  The recursion of \<^verbatim>\<open>tc\<close> follows the nesting of the expression; the first argument
  bounds its depth.
\<close>

primrec tc :: "nat \<Rightarrow> exp \<Rightarrow> nat \<Rightarrow> ty comp" where
  "tc 0 = (\<lambda>e env. throw OutOfFuel)"
| "tc (Suc k) = tc_step (tc k)"

subsection \<open>The checker object\<close>

text \<open>The registry when Type.js has been loaded: the five primitive singletons.\<close>

definition initial_state :: state where
  "initial_state =
     \<lparr>frames = [],
      types = [(''number'', Prim ''number''), (''string'', Prim ''string''),
               (''boolean'', Prim ''boolean''), (''null'', Prim ''null''),
               (''any'', Prim ''any'')],
      nextId = 0\<rparr>"

text \<open>\<^verbatim>\<open>_createGlobal\<close>, called by the constructor of \<^verbatim>\<open>EvaTC\<close>.\<close>

definition createGlobal :: "nat comp" where
  "createGlobal =
     andThen (typeM ''string'') (\<lambda>version.
     andThen (fromString (Str ''Fn<number<number,number>>'')) (\<lambda>sum.
     andThen (fromString (Str ''Fn<number<number>>'')) (\<lambda>square.
     andThen (fromString (Str ''Fn<string<any>>'')) (\<lambda>typeof.
     (\<lambda>st. case newEnv [(''VERSION'', version), (''sum'', sum),
                          (''square'', square), (''typeof'', typeof)] None st of
             (r, st') \<Rightarrow> (Inr r, st'))))))"

text \<open>
  A session: \<^verbatim>\<open>new EvaTC()\<close> on the freshly loaded registry, then \<^verbatim>\<open>eva.tc(exp)\<close>
  for each expression in turn, in the global environment; the result of the last
  call, or the first exception.  The global environment is reference 0.  The
  statements about sessions below hold for every depth bound \<open>8 + k\<close>, or are
  evaluated at the bound 10; none of their results is \<open>OutOfFuel\<close>.
\<close>

fun tc_all :: "nat \<Rightarrow> nat \<Rightarrow> ty \<Rightarrow> exp list \<Rightarrow> ty comp" where
  "tc_all fuel env result [] = ret result"
| "tc_all fuel env result (e # es) =
     andThen (tc fuel e env) (\<lambda>t. tc_all fuel env t es)"

definition session :: "nat \<Rightarrow> exp list \<Rightarrow> (error + ty) \<times> state" where
  "session fuel es =
     andThen createGlobal (\<lambda>global. tc_all fuel global Undefined es) initial_state"


section \<open>Named values used in the statements\<close>

definition Type_number :: ty where "Type_number = Prim ''number''"
definition Type_string :: ty where "Type_string = Prim ''string''"
definition Type_boolean :: ty where "Type_boolean = Prim ''boolean''"
definition Type_null :: ty where "Type_null = Prim ''null''"
definition Type_any :: ty where "Type_any = Prim ''any''"

text \<open>The class an object is an instance of (\<^verbatim>\<open>instanceof\<close>).\<close>

datatype kind = KUndefined | KPrimitive | KFunction | KAlias | KClass | KUnion | KGeneric

fun kind_of :: "ty \<Rightarrow> kind" where
  "kind_of Undefined = KUndefined"
| "kind_of (Prim s) = KPrimitive"
| "kind_of (Fn n ps r) = KFunction"
| "kind_of (Alias n p) = KAlias"
| "kind_of (Class e n s) = KClass"
| "kind_of (Union i n os) = KUnion"
| "kind_of (Generic g p e) = KGeneric"

text \<open>A child frame 1 with an empty record whose parent, frame 0, binds \<open>x\<close>.\<close>

definition chain_example :: state where
  "chain_example =
     \<lparr>frames = [\<lparr>entries = [(''x'', Type_number)], parent = None\<rparr>,
                \<lparr>entries = [], parent = Some 0\<rparr>],
      types = [], nextId = 0\<rparr>"

text \<open>\<^verbatim>\<open>Fn<number<number>>\<close> as \<^verbatim>\<open>Type.fromString\<close> builds it (the type of \<open>square\<close>).\<close>

definition Fn_number_number :: ty where
  "Fn_number_number = Fn (Str ''Fn<number<number>>'') [Type_number] Type_number"

text \<open>The declarations \<^verbatim>\<open>(type U (or number number))\<close>, \<^verbatim>\<open>(type V (or number string))\<close>,
  \<^verbatim>\<open>(type W (or number string))\<close>, \<^verbatim>\<open>(type U1 (or W))\<close> and \<^verbatim>\<open>(type V1 (or W))\<close>, and
  the unions they register.\<close>

definition union_decls :: "exp list" where
  "union_decls =
     [List [Str ''type'', Str ''U'', List [Str ''or'', Str ''number'', Str ''number'']],
      List [Str ''type'', Str ''V'', List [Str ''or'', Str ''number'', Str ''string'']],
      List [Str ''type'', Str ''W'', List [Str ''or'', Str ''number'', Str ''string'']],
      List [Str ''type'', Str ''U1'', List [Str ''or'', Str ''W'']],
      List [Str ''type'', Str ''V1'', List [Str ''or'', Str ''W'']]]"

definition union_U :: ty where
  "union_U = Union 0 (Str ''U'') [Type_number, Type_number]"
definition union_V :: ty where
  "union_V = Union 1 (Str ''V'') [Type_number, Type_string]"
definition union_W :: ty where
  "union_W = Union 2 (Str ''W'') [Type_number, Type_string]"
definition union_U1 :: ty where
  "union_U1 = Union 3 (Str ''U1'') [union_W]"
definition union_V1 :: ty where
  "union_V1 = Union 4 (Str ''V1'') [union_W]"

text \<open>
  The declarations \<^verbatim>\<open>(class C null (begin))\<close>, \<^verbatim>\<open>(type CU (or C))\<close>,
  \<^verbatim>\<open>(type W (or number string))\<close>, \<^verbatim>\<open>(type WB (or W boolean))\<close> and
  \<^verbatim>\<open>(type NS (or number string))\<close>, and the types they register: a class inside a
  union, and a union inside a union.
\<close>

definition nested_decls :: "exp list" where
  "nested_decls =
     [List [Str ''class'', Str ''C'', Str ''null'', List [Str ''begin'']],
      List [Str ''type'', Str ''CU'', List [Str ''or'', Str ''C'']],
      List [Str ''type'', Str ''W'', List [Str ''or'', Str ''number'', Str ''string'']],
      List [Str ''type'', Str ''WB'', List [Str ''or'', Str ''W'', Str ''boolean'']],
      List [Str ''type'', Str ''NS'', List [Str ''or'', Str ''number'', Str ''string'']]]"

definition class_C :: ty where
  "class_C = Class 1 (Str ''C'') Type_null"
definition union_CU :: ty where
  "union_CU = Union 0 (Str ''CU'') [class_C]"
definition union_WB :: ty where
  "union_WB = Union 2 (Str ''WB'') [Union 1 (Str ''W'') [Type_number, Type_string], Type_boolean]"
definition union_NS :: ty where
  "union_NS = Union 3 (Str ''NS'') [Type_number, Type_string]"

text \<open>Programs of the statements, as the reader hands them over.\<close>

definition quoted :: "string \<Rightarrow> exp" where
  "quoted s = Str (CHR 0x22 # s @ [CHR 0x22])"

text \<open>\<^verbatim>\<open>(def fact ((n number)) -> number (if (== n 0) 1 (* n (fact (- n 1)))))\<close>\<close>

definition def_fact :: exp where
  "def_fact =
     List [Str ''def'', Str ''fact'', List [List [Str ''n'', Str ''number'']],
           Str ''->'', Str ''number'',
           List [Str ''if'', List [Str ''=='', Str ''n'', Num ''0''], Num ''1'',
                 List [Str ''*'', Str ''n'',
                       List [Str ''fact'', List [Str ''-'', Str ''n'', Num ''1'']]]]]"

text \<open>\<^verbatim>\<open>(def id <T> ((x T)) -> T x)\<close>\<close>

definition def_id :: exp where
  "def_id =
     List [Str ''def'', Str ''id'', Str ''<T>'', List [List [Str ''x'', Str ''T'']],
           Str ''->'', Str ''T'', Str ''x'']"

text \<open>\<^verbatim>\<open>(type int number)\<close>\<close>

definition type_int_number :: exp where
  "type_int_number = List [Str ''type'', Str ''int'', Str ''number'']"

text \<open>An alias of an alias of ... of a base type.\<close>

fun alias_chain :: "exp list \<Rightarrow> ty \<Rightarrow> ty" where
  "alias_chain [] base = base"
| "alias_chain (n # ns) base = Alias n (alias_chain ns base)"

text \<open>
  Types built from primitives.  \<open>base t\<close> is the type at the end of the alias chain
  \<open>t\<close> and \<open>alias_names t\<close> are the names of the aliases on the way, so that
  \<open>t\<close> is \<open>alias_chain (alias_names t) (base t)\<close>.  A type is simple when it is a
  primitive or an alias, through any chain, of a primitive.  A simple union is a
  union of simple options over pairwise different primitives.  A simple root is a
  primitive or a simple union.
\<close>

fun base :: "ty \<Rightarrow> ty" where
  "base (Alias n p) = base p"
| "base t = t"

fun alias_names :: "ty \<Rightarrow> exp list" where
  "alias_names (Alias n p) = n # alias_names p"
| "alias_names t = []"

definition simple :: "ty \<Rightarrow> bool" where
  "simple t = (kind_of (base t) = KPrimitive)"

definition simple_union :: "ty \<Rightarrow> bool" where
  "simple_union t =
     (case t of
        Union i n os \<Rightarrow> list_all simple os \<and> distinct (map base os)
      | _ \<Rightarrow> False)"

definition simple_root :: "ty \<Rightarrow> bool" where
  "simple_root t = (kind_of t = KPrimitive \<or> simple_union t)"

fun options :: "ty \<Rightarrow> ty list" where
  "options (Union i n os) = os"
| "options t = []"

text \<open>
  The naming discipline of the registry, as far as the comparison of two alias
  chains \<open>ns\<close> over \<open>r\<close> and \<open>ms\<close> over \<open>s\<close> meets it.  \<open>names_apart\<close>: no alias of
  one chain has the name of an alias of the other, and none has the name of the type
  at the end of the other chain.  \<open>options_apart\<close>, which only speaks when \<open>r\<close> and
  \<open>s\<close> are both unions: no alias among their options has the name of one of the
  two unions or of a primitive under one of their options.
\<close>

definition names_apart :: "exp list \<Rightarrow> ty \<Rightarrow> exp list \<Rightarrow> ty \<Rightarrow> bool" where
  "names_apart ns r ms s =
     (list_all (\<lambda>n. n \<notin> set ms \<and> Named n \<noteq> tname s) ns
      \<and> list_all (\<lambda>m. Named m \<noteq> tname r) ms)"

definition options_apart :: "ty \<Rightarrow> ty \<Rightarrow> bool" where
  "options_apart r s =
     (if kind_of r = KUnion \<and> kind_of s = KUnion
      then list_all (\<lambda>a. Named a \<noteq> tname r \<and> Named a \<noteq> tname s
                        \<and> list_all (\<lambda>x. Named a \<noteq> tname (base x)) (options r @ options s))
             (concat (map alias_names (options r @ options s)))
      else True)"

text \<open>
  The declarations \<^verbatim>\<open>(type int number)\<close>, \<^verbatim>\<open>(type IS (or int string))\<close>,
  \<^verbatim>\<open>(type SN (or string number))\<close>, \<^verbatim>\<open>(type a IS)\<close> and \<^verbatim>\<open>(type b SN)\<close>, and the
  types they register.
\<close>

definition simple_decls :: "exp list" where
  "simple_decls =
     [type_int_number,
      List [Str ''type'', Str ''IS'', List [Str ''or'', Str ''int'', Str ''string'']],
      List [Str ''type'', Str ''SN'', List [Str ''or'', Str ''string'', Str ''number'']],
      List [Str ''type'', Str ''a'', Str ''IS''],
      List [Str ''type'', Str ''b'', Str ''SN'']]"

definition union_IS :: ty where
  "union_IS = Union 0 (Str ''IS'') [Alias (Str ''int'') Type_number, Type_string]"
definition union_SN :: ty where
  "union_SN = Union 1 (Str ''SN'') [Type_string, Type_number]"

text \<open>
  \<^verbatim>\<open>(var x 5)\<close> and \<^verbatim>\<open>(var sbooleans "b")\<close>, then a condition that compares
  \<^verbatim>\<open>(typeof x)\<close> with the variable \<open>sbooleans\<close> rather than with a string literal:
  \<^verbatim>\<open>(if (== (typeof x) sbooleans) (== x true) false)\<close>; and a condition that
  compares \<^verbatim>\<open>(typeof x)\<close> with itself: \<^verbatim>\<open>(if (== (typeof x) (typeof x)) 1 2)\<close>.
\<close>

definition narrowing_decls :: "exp list" where
  "narrowing_decls =
     [List [Str ''var'', Str ''x'', Num ''5''],
      List [Str ''var'', Str ''sbooleans'', quoted ''b'']]"

definition loose_condition :: exp where
  "loose_condition = List [Str ''=='', List [Str ''typeof'', Str ''x''], Str ''sbooleans'']"

definition loose_consequent :: exp where
  "loose_consequent = List [Str ''=='', Str ''x'', Str ''true'']"

definition loose_if :: exp where
  "loose_if = List [Str ''if'', loose_condition, loose_consequent, Str ''false'']"

definition typeof_twice_if :: exp where
  "typeof_twice_if =
     List [Str ''if'',
           List [Str ''=='', List [Str ''typeof'', Str ''x''], List [Str ''typeof'', Str ''x'']],
           Num ''1'', Num ''2'']"

text \<open>\<^verbatim>\<open>(type any (or number))\<close> and \<^verbatim>\<open>(typeof "a")\<close>\<close>

definition type_any_union :: exp where
  "type_any_union = List [Str ''type'', Str ''any'', List [Str ''or'', Str ''number'']]"

definition typeof_call :: exp where
  "typeof_call = List [Str ''typeof'', quoted ''a'']"

lemmas example_types =
  Type_number_def Type_string_def Type_boolean_def Type_null_def Type_any_def
  Fn_number_number_def union_U_def union_V_def union_W_def union_U1_def union_V1_def


section \<open>Fuel\<close>

text \<open>Eight levels of nesting are enough for every program below; more do not matter.\<close>

lemma fuel8: "8 + k = Suc (Suc (Suc (Suc (Suc (Suc (Suc (Suc k)))))))"
  by simp

section \<open>The loops of the equality protocol\<close>

lemma some_equals_true:
  "some_equals tn os other = Inr True \<longleftrightarrow>
   (\<exists>k<length os. equals tn (os ! k) other = Inr True \<and>
        (\<forall>j<k. equals tn (os ! j) other = Inr False))"
proof (induction os)
  case Nil
  then show ?case by simp
next
  case (Cons t ts)
  show ?case
  proof (cases "equals tn t other")
    case (Inl e)
    have "\<not> (\<exists>k<length (t # ts). equals tn ((t # ts) ! k) other = Inr True \<and>
              (\<forall>j<k. equals tn ((t # ts) ! j) other = Inr False))"
    proof
      assume "\<exists>k<length (t # ts). equals tn ((t # ts) ! k) other = Inr True \<and>
              (\<forall>j<k. equals tn ((t # ts) ! j) other = Inr False)"
      then obtain k where k: "equals tn ((t # ts) ! k) other = Inr True"
        "\<forall>j<k. equals tn ((t # ts) ! j) other = Inr False" by blast
      show False
      proof (cases k)
        case 0
        with k Inl show False by simp
      next
        case (Suc k')
        with k(2) have "equals tn t other = Inr False" by auto
        with Inl show False by simp
      qed
    qed
    with Inl show ?thesis by simp
  next
    case (Inr b)
    show ?thesis
    proof (cases b)
      case True
      with Inr have "equals tn ((t # ts) ! 0) other = Inr True" by simp
      then have "\<exists>k<length (t # ts). equals tn ((t # ts) ! k) other = Inr True \<and>
              (\<forall>j<k. equals tn ((t # ts) ! j) other = Inr False)"
        by (intro exI [of _ 0]) simp
      with Inr True show ?thesis by simp
    next
      case False
      with Inr have first: "equals tn t other = Inr False" by simp
      have "(\<exists>k<length (t # ts). equals tn ((t # ts) ! k) other = Inr True \<and>
              (\<forall>j<k. equals tn ((t # ts) ! j) other = Inr False))
          \<longleftrightarrow> (\<exists>k<length ts. equals tn (ts ! k) other = Inr True \<and>
              (\<forall>j<k. equals tn (ts ! j) other = Inr False))"
        using first by (simp add: Ex_less_Suc2 All_less_Suc2)
      with first Cons.IH show ?thesis by simp
    qed
  qed
qed

lemma includesAll_loop_true:
  "includesAll_loop tn this ts = Inr True \<longleftrightarrow> (\<forall>t\<in>set ts. equals tn this t = Inr True)"
  by (induction ts) (auto split: sum.splits bool.splits)

section \<open>Symmetry among types built from primitives\<close>

lemma alias_chain_names_base: "alias_chain (alias_names t) (base t) = t"
  by (induction t rule: base.induct) simp_all

lemma alias_chain_skip:
  "other \<noteq> Undefined \<Longrightarrow> list_all (\<lambda>n. Named n \<noteq> tname other) ns \<Longrightarrow>
   equals tn (alias_chain ns r) other = equals tn r other"
  by (induction ns) (cases other; simp)+

lemma simple_equals_prim:
  assumes "simple x" "list_all (\<lambda>a. Named a \<noteq> Named (Str q)) (alias_names x)"
  shows "equals tn x (Prim q) = Inr (base x = Prim q)"
proof -
  from assms(1) obtain p where p: "base x = Prim p"
    by (cases "base x") (simp_all add: simple_def)
  have "equals tn (alias_chain (alias_names x) (base x)) (Prim q) = equals tn (base x) (Prim q)"
    using assms(2) by (intro alias_chain_skip) simp_all
  then have "equals tn x (Prim q) = equals tn (base x) (Prim q)"
    by (simp only: alias_chain_names_base)
  then show ?thesis by (simp add: p)
qed

lemma some_equals_simple:
  "list_all simple os \<Longrightarrow>
   list_all (\<lambda>a. Named a \<noteq> Named (Str q)) (concat (map alias_names os)) \<Longrightarrow>
   some_equals tn os (Prim q) = Inr (Prim q \<in> base ` set os)"
proof (induction os)
  case Nil
  then show ?case by simp
next
  case (Cons x os)
  then have "equals tn x (Prim q) = Inr (base x = Prim q)"
    by (intro simple_equals_prim) simp_all
  with Cons show ?case by (auto split: bool.splits)
qed

lemma union_equals_simple:
  assumes os: "list_all simple os"
    and v: "simple v"
    and n1: "list_all (\<lambda>a. Named a \<noteq> Named n) (alias_names v)"
    and n2: "list_all (\<lambda>a. Named a \<noteq> tname (base v)) (concat (map alias_names os))"
  shows "equals tn (Union i n os) v = Inr (base v \<in> base ` set os)"
proof -
  from v obtain q where q: "base v = Prim q"
    by (cases "base v") (simp_all add: simple_def)
  have prim: "equals tn (Union i n os) (Prim q) = Inr (Prim q \<in> base ` set os)"
    using os n2 by (simp add: some_equals_simple q)
  show ?thesis
  proof (cases "alias_names v")
    case Nil
    then have "v = Prim q" using alias_chain_names_base [of v] q by simp
    with prim q show ?thesis by simp
  next
    case (Cons a as)
    then obtain p where vp: "v = Alias a p" by (cases v) simp_all
    then have "equals tn (Union i n os) v = equals tn v (Union i n os)" by simp
    also have "\<dots> = equals tn (alias_chain (alias_names v) (base v)) (Union i n os)"
      by (simp add: alias_chain_names_base)
    also have "\<dots> = equals tn (base v) (Union i n os)"
      using n1 by (intro alias_chain_skip) simp_all
    also have "\<dots> = equals tn (Union i n os) (Prim q)" by (simp add: q)
    finally show ?thesis using prim q by simp
  qed
qed

lemma includesAll_simple:
  assumes os: "list_all simple os"
  shows "list_all simple qs \<Longrightarrow>
    list_all (\<lambda>a. Named a \<noteq> Named n) (concat (map alias_names qs)) \<Longrightarrow>
    list_all (\<lambda>a. list_all (\<lambda>x. Named a \<noteq> tname (base x)) qs)
       (concat (map alias_names os)) \<Longrightarrow>
    includesAll_loop tn (Union i n os) qs = Inr (base ` set qs \<subseteq> base ` set os)"
proof (induction qs)
  case Nil
  then show ?case by simp
next
  case (Cons q qs)
  have "equals tn (Union i n os) q = Inr (base q \<in> base ` set os)"
    using os Cons.prems by (intro union_equals_simple) (auto simp: list_all_iff)
  moreover have "includesAll_loop tn (Union i n os) qs = Inr (base ` set qs \<subseteq> base ` set os)"
    using Cons.prems by (intro Cons.IH) (auto simp: list_all_iff)
  ultimately show ?case by (auto simp del: equals.simps split: bool.splits)
qed

lemma simple_union_symmetric:
  assumes "simple_union u" "simple_union v" "options_apart u v"
  shows "equals tn u v = equals tn v u"
proof -
  from assms(1,2) obtain i n os j m qs where
    u: "u = Union i n os" and v: "v = Union j m qs"
    and os: "list_all simple os" "distinct (map base os)"
    and qs: "list_all simple qs" "distinct (map base qs)"
    by (auto simp: simple_union_def split: ty.splits)
  from assms(3) have apart:
    "\<forall>a \<in> set (concat (map alias_names (os @ qs))).
        Named a \<noteq> Named n \<and> Named a \<noteq> Named m
        \<and> (\<forall>x \<in> set (os @ qs). Named a \<noteq> tname (base x))"
    by (simp add: options_apart_def u v list_all_iff)
  have uv: "includesAll_loop tn (Union i n os) qs = Inr (base ` set qs \<subseteq> base ` set os)"
    using os(1) qs(1) apart by (intro includesAll_simple) (auto simp: list_all_iff)
  have vu: "includesAll_loop tn (Union j m qs) os = Inr (base ` set os \<subseteq> base ` set qs)"
    using os(1) qs(1) apart by (intro includesAll_simple) (auto simp: list_all_iff)
  have euv: "equals tn u v =
      (if i = j then Inr True else if length qs \<noteq> length os then Inr False
       else Inr (base ` set qs \<subseteq> base ` set os))"
    by (simp add: u v uv)
  have evu: "equals tn v u =
      (if j = i then Inr True else if length os \<noteq> length qs then Inr False
       else Inr (base ` set os \<subseteq> base ` set qs))"
    by (simp add: u v vu)
  have "base ` set qs \<subseteq> base ` set os \<longleftrightarrow> base ` set os \<subseteq> base ` set qs"
    if len: "length qs = length os"
  proof -
    have "card (base ` set qs) = length qs" "card (base ` set os) = length os"
      using os(2) qs(2) distinct_card [of "map base os"] distinct_card [of "map base qs"]
      by simp_all
    then have card: "card (base ` set qs) = card (base ` set os)" using len by simp
    show ?thesis
    proof
      assume "base ` set qs \<subseteq> base ` set os"
      then have "base ` set qs = base ` set os" using card by (simp add: card_subset_eq)
      then show "base ` set os \<subseteq> base ` set qs" by simp
    next
      assume "base ` set os \<subseteq> base ` set qs"
      then have "base ` set os = base ` set qs" using card by (simp add: card_subset_eq)
      then show "base ` set qs \<subseteq> base ` set os" by simp
    qed
  qed
  then show ?thesis unfolding euv evu by auto
qed


lemma simple_root_symmetric:
  assumes "simple_root r" "simple_root s" "options_apart r s"
  shows "equals tn r s = equals tn s r"
proof (cases "simple_union r \<and> simple_union s")
  case True
  with assms(3) show ?thesis by (blast intro: simple_union_symmetric)
next
  case False
  with assms consider
      (pp) p q where "r = Prim p" "s = Prim q"
    | (pu) p where "r = Prim p" "simple_union s"
    | (up) q where "simple_union r" "s = Prim q"
    by (cases r; cases s) (auto simp: simple_root_def simple_union_def)
  then show ?thesis
  proof cases
    case pp
    then show ?thesis by auto
  next
    case pu
    then show ?thesis by (cases s) (simp_all add: simple_union_def)
  next
    case up
    then show ?thesis by (cases r) (simp_all add: simple_union_def)
  qed
qed

lemma simple_root_vs_chain:
  "simple_root r \<Longrightarrow> ms \<noteq> [] \<Longrightarrow>
   equals tn r (alias_chain ms s) = equals tn (alias_chain ms s) r"
  by (cases ms; cases r) (simp_all add: simple_root_def simple_union_def)

lemma simple_root_defined: "simple_root r \<Longrightarrow> alias_chain ns r \<noteq> Undefined"
  by (cases ns; cases r) (simp_all add: simple_root_def simple_union_def)

lemma chains_apart:
  assumes r: "simple_root r" and s: "simple_root s"
    and a1: "list_all (\<lambda>n. n \<notin> set ms \<and> Named n \<noteq> tname s) ns"
    and a2: "list_all (\<lambda>m. Named m \<noteq> tname r) ms"
  shows "equals tn (alias_chain ns r) (alias_chain ms s) =
         (if ms = [] then equals tn r s else equals tn s r)"
proof -
  have "list_all (\<lambda>n. Named n \<noteq> tname (alias_chain ms s)) ns"
    using a1 by (cases ms) (auto simp: list_all_iff)
  then have "equals tn (alias_chain ns r) (alias_chain ms s) = equals tn r (alias_chain ms s)"
    using simple_root_defined [OF s] by (simp add: alias_chain_skip)
  also have "\<dots> = (if ms = [] then equals tn r s else equals tn s r)"
  proof (cases "ms = []")
    case True
    then show ?thesis by simp
  next
    case False
    have "r \<noteq> Undefined" using simple_root_defined [OF r, of "[]"] by simp
    then have "equals tn (alias_chain ms s) r = equals tn s r"
      using a2 by (simp add: alias_chain_skip)
    with False show ?thesis by (simp add: simple_root_vs_chain [OF r])
  qed
  finally show ?thesis .
qed

lemma chain_root_true:
  "simple_root r \<Longrightarrow> equals tn (alias_chain ns r) r = Inr True"
proof (induction ns)
  case Nil
  then show ?case by (cases r) (auto simp: simple_root_def simple_union_def)
next
  case (Cons n ns)
  then show ?case by (cases r) (auto simp: simple_root_def simple_union_def)
qed

lemma same_root_true:
  assumes r: "simple_root r"
  shows "equals tn (alias_chain ns r) (alias_chain ms r) = Inr True"
proof (induction ns)
  case Nil
  show ?case
  proof (cases ms)
    case Nil
    then show ?thesis using chain_root_true [OF r, of tn "[]"] by simp
  next
    case (Cons m ms')
    then show ?thesis
      using simple_root_vs_chain [OF r, of ms tn r] chain_root_true [OF r, of tn ms] by simp
  qed
next
  case (Cons n ns)
  have "alias_chain ms r \<noteq> Undefined" by (rule simple_root_defined [OF r])
  then show ?case using Cons.IH
    by (cases "alias_chain ms r") simp_all
qed

section \<open>Environment lookup\<close>

text \<open>
  Claim C1 (lookup returns the binding of the innermost scope on the chain that defines
  the name, and fails only when no environment on the chain defines it).  The code
  consults the local record only.  In \<open>chain_example\<close> the name \<open>x\<close> is bound in the
  parent of frame 1: the chain lookup of the specification finds \<open>number\<close> there, the
  code's \<^verbatim>\<open>lookup\<close> throws the ReferenceError.
\<close>

theorem lookup_ignores_parent:
  "lookup chain_example 1 ''x'' = Inl (UndefinedName ''x'') \<and>
   lookup_chain 2 chain_example 1 ''x'' = Inr Type_number"
  by (simp add: lookup_def chain_example_def envs_def recordOf_def numeral_2_eq_2)

section \<open>The equality protocol\<close>

lemma square_session:
  "fst (session (8 + k) [List [Str ''var'', List [Str ''x'', Str ''number''], Str ''square'']])
       = Inl JSTypeError"
  unfolding fuel8 by code_simp

text \<open>
  Claim C10 (\<^verbatim>\<open>t.equals(u)\<close> returns a boolean for every pair of types and never
  throws).  \<^verbatim>\<open>Type.Function.equals\<close> reads \<^verbatim>\<open>other.paramTypes.length\<close> before
  anything else, and only a Function has \<^verbatim>\<open>paramTypes\<close>: comparing the type of
  \<open>square\<close> with \<open>number\<close> throws a TypeError, and so does the program
  \<^verbatim>\<open>(var (x number) square)\<close>, where \<^verbatim>\<open>_expect\<close> makes that comparison.
\<close>

theorem Function_equals_throws:
  "equals tnull Fn_number_number Type_number = Inl JSTypeError
   \<and> fst (session (8 + k) [List [Str ''var'', List [Str ''x'', Str ''number''], Str ''square'']])
       = Inl JSTypeError"
  using square_session [of k] by (simp add: example_types)

text \<open>
  Claim C3 (equality is symmetric whenever one side is an Alias or a Union), refuted
  at three pairs of types, each as a session registers it; \<^verbatim>\<open>Type.null\<close> is the
  primitive throughout.

  \<^item> A repeated option: the union \<open>U\<close> of \<open>number, number\<close> does not equal the union
    \<open>V\<close> of \<open>number, string\<close>, but \<open>V\<close> equals \<open>U\<close>, since \<^verbatim>\<open>includesAll\<close> only
    asks that each option of the other side be accepted by the receiver.
  \<^item> A class in a union: the class \<open>C\<close> does not equal the union \<open>CU\<close> of \<open>C\<close>
    (\<^verbatim>\<open>Type.Class.equals\<close> hands over to an Alias only), but \<open>CU\<close> equals \<open>C\<close>.
  \<^item> A union in a union: the union \<open>WB\<close> of \<open>W, boolean\<close>, with \<open>W\<close> the union of
    \<open>number, string\<close>, equals the union \<open>NS\<close> of \<open>number, string\<close>, but \<open>NS\<close> does
    not equal \<open>WB\<close>.
\<close>

theorem equals_asymmetric_counterexample:
  "registry (snd (session 10 union_decls)) ''U'' = Some union_U
   \<and> registry (snd (session 10 union_decls)) ''V'' = Some union_V
   \<and> typeProp (snd (session 10 union_decls)) ''null'' = Type_null
   \<and> equals Type_null union_U union_V = Inr False
   \<and> equals Type_null union_V union_U = Inr True
   \<and> registry (snd (session 10 nested_decls)) ''C'' = Some class_C
   \<and> registry (snd (session 10 nested_decls)) ''CU'' = Some union_CU
   \<and> registry (snd (session 10 nested_decls)) ''WB'' = Some union_WB
   \<and> registry (snd (session 10 nested_decls)) ''NS'' = Some union_NS
   \<and> typeProp (snd (session 10 nested_decls)) ''null'' = Type_null
   \<and> equals Type_null class_C union_CU = Inr False
   \<and> equals Type_null union_CU class_C = Inr True
   \<and> equals Type_null union_WB union_NS = Inr True
   \<and> equals Type_null union_NS union_WB = Inr False"
  by code_simp

text \<open>
  Claim C3 as amended: \<^verbatim>\<open>t.equals(u)\<close> and \<^verbatim>\<open>u.equals(t)\<close> have the same outcome

  \<^item> when \<open>u\<close> is an Alias and \<open>t\<close> is a Primitive, a GenericFunction, a Class or a
    Union, or \<open>u\<close> is a Union and \<open>t\<close> is a Primitive, a GenericFunction or an Alias
    (one of the two calls hands the comparison over to the other);
  \<^item> and when each of \<open>t\<close> and \<open>u\<close> is a primitive, a union whose options are
    primitives or aliases of primitives, over pairwise different primitives, or an
    alias, through any chain of aliases, of one of these, provided the two chains
    end in the same type or the names keep the discipline of the registry
    (\<open>names_apart\<close> and \<open>options_apart\<close>).  This covers two such unions, two such
    aliases, and an alias with a union.
\<close>

theorem equals_symmetric:
  "(kind_of u = KAlias \<and> kind_of t \<in> {KPrimitive, KGeneric, KClass, KUnion}
      \<or> kind_of u = KUnion \<and> kind_of t \<in> {KPrimitive, KGeneric, KAlias}
    \<longrightarrow> equals tnull t u = equals tnull u t)
   \<and> (simple_root r \<and> simple_root s
        \<and> (r = s \<or> names_apart ns r ms s \<and> options_apart r s)
        \<longrightarrow> equals tnull (alias_chain ns r) (alias_chain ms s)
            = equals tnull (alias_chain ms s) (alias_chain ns r))"
proof (intro conjI impI)
  assume "kind_of u = KAlias \<and> kind_of t \<in> {KPrimitive, KGeneric, KClass, KUnion}
      \<or> kind_of u = KUnion \<and> kind_of t \<in> {KPrimitive, KGeneric, KAlias}"
  then show "equals tnull t u = equals tnull u t"
    by (cases t; cases u) simp_all
next
  assume h: "simple_root r \<and> simple_root s
        \<and> (r = s \<or> names_apart ns r ms s \<and> options_apart r s)"
  then have r: "simple_root r" and s: "simple_root s" by simp_all
  show "equals tnull (alias_chain ns r) (alias_chain ms s)
            = equals tnull (alias_chain ms s) (alias_chain ns r)"
  proof (cases "r = s")
    case True
    then show ?thesis using r by (simp add: same_root_true)
  next
    case False
    with h have apart: "names_apart ns r ms s" and opts: "options_apart r s" by simp_all
    then have a1: "list_all (\<lambda>n. n \<notin> set ms \<and> Named n \<noteq> tname s) ns"
      and a2: "list_all (\<lambda>m. Named m \<noteq> tname r) ms"
      by (simp_all add: names_apart_def)
    have b1: "list_all (\<lambda>m. m \<notin> set ns \<and> Named m \<noteq> tname r) ms"
      using a1 a2 by (auto simp: list_all_iff)
    have b2: "list_all (\<lambda>n. Named n \<noteq> tname s) ns"
      using a1 by (auto simp: list_all_iff)
    have sym: "equals tnull r s = equals tnull s r"
      by (rule simple_root_symmetric [OF r s opts])
    show ?thesis
      unfolding chains_apart [OF r s a1 a2] chains_apart [OF s r b1 b2]
      using sym by simp
  qed
qed

theorem equals_symmetric_witness:
  "kind_of union_V = KUnion \<and> kind_of Type_string \<in> {KPrimitive, KGeneric, KAlias}
   \<and> equals Type_null Type_string union_V = Inr True
   \<and> equals Type_null union_V Type_string = Inr True
   \<and> registry (snd (session 10 simple_decls)) ''a'' = Some (alias_chain [Str ''a''] union_IS)
   \<and> registry (snd (session 10 simple_decls)) ''b'' = Some (alias_chain [Str ''b''] union_SN)
   \<and> simple_root union_IS \<and> simple_root union_SN
   \<and> names_apart [Str ''a''] union_IS [Str ''b''] union_SN
   \<and> options_apart union_IS union_SN
   \<and> equals Type_null (alias_chain [Str ''a''] union_IS) (alias_chain [Str ''b''] union_SN)
       = Inr True
   \<and> equals Type_null (alias_chain [Str ''b''] union_SN) (alias_chain [Str ''a''] union_IS)
       = Inr True
   \<and> names_apart [] union_IS [] union_V \<and> options_apart union_IS union_V
   \<and> equals Type_null union_IS union_V = Inr True
   \<and> equals Type_null union_V union_IS = Inr True"
proof -
  have hyps:
    "kind_of union_V = KUnion \<and> kind_of Type_string \<in> {KPrimitive, KGeneric, KAlias}"
    "simple_root union_IS \<and> simple_root union_SN
       \<and> (union_IS = union_SN
           \<or> names_apart [Str ''a''] union_IS [Str ''b''] union_SN
             \<and> options_apart union_IS union_SN)"
    "simple_root union_IS \<and> simple_root union_V
       \<and> (union_IS = union_V
           \<or> names_apart [] union_IS [] union_V \<and> options_apart union_IS union_V)"
    by code_simp+
  have vals:
    "equals Type_null Type_string union_V = Inr True"
    "registry (snd (session 10 simple_decls)) ''a'' = Some (alias_chain [Str ''a''] union_IS)"
    "registry (snd (session 10 simple_decls)) ''b'' = Some (alias_chain [Str ''b''] union_SN)"
    "simple_root union_IS \<and> simple_root union_SN"
    "names_apart [Str ''a''] union_IS [Str ''b''] union_SN"
    "options_apart union_IS union_SN"
    "equals Type_null (alias_chain [Str ''a''] union_IS) (alias_chain [Str ''b''] union_SN)
       = Inr True"
    "names_apart [] union_IS [] union_V \<and> options_apart union_IS union_V"
    "equals Type_null union_IS union_V = Inr True"
    by code_simp+
  note sym = equals_symmetric [of union_V Type_string Type_null union_IS union_SN
                "[Str ''a'']" "[Str ''b'']"]
    equals_symmetric [of union_V Type_string Type_null union_IS union_V "[]" "[]"]
  have s1: "equals Type_null union_V Type_string = equals Type_null Type_string union_V"
    using sym(1) hyps(1) by metis
  have s2: "equals Type_null (alias_chain [Str ''b''] union_SN) (alias_chain [Str ''a''] union_IS)
          = equals Type_null (alias_chain [Str ''a''] union_IS) (alias_chain [Str ''b''] union_SN)"
    using sym(1) hyps(2) by metis
  have s3: "equals Type_null union_V union_IS = equals Type_null union_IS union_V"
    using sym(2) hyps(3) by (metis alias_chain.simps(1))
  show ?thesis
    using hyps(1) vals s1 s2 s3 by (simp only:)
qed

text \<open>
  Claim C4 (a Union equals another Union exactly when the option lists have the same
  length and every option of the other is a member of this one), refuted: \<open>U1\<close> and
  \<open>V1\<close> both have the single option \<open>W\<close>, and \<open>W\<close> equals the option \<open>W\<close> of
  \<open>U1\<close>; yet \<open>U1\<close> does not equal \<open>V1\<close>, because the option \<open>W\<close> is itself a Union
  and is compared by \<^verbatim>\<open>includesAll\<close> against the one-element list of \<open>U1\<close>.
\<close>

theorem Union_equals_counterexample:
  "registry (snd (session 10 union_decls)) ''U1'' = Some union_U1
   \<and> registry (snd (session 10 union_decls)) ''V1'' = Some union_V1
   \<and> typeProp (snd (session 10 union_decls)) ''null'' = Type_null
   \<and> union_U1 = Union 3 (Str ''U1'') [union_W]
   \<and> union_V1 = Union 4 (Str ''V1'') [union_W]
   \<and> length [union_W] = length [union_W]
   \<and> some_equals Type_null [union_W] union_W = Inr True
   \<and> equals Type_null union_U1 union_V1 = Inr False"
  by code_simp

text \<open>
  Claim C4 as amended.  Against a type that is neither an Alias nor a Union, a Union
  returns true exactly when \<^verbatim>\<open>equals\<close> of some option returns true and that of
  every earlier option returns false.  Against a Union, it returns true exactly when
  the other is the same object, or the option lists have the same length and the
  receiver's own \<^verbatim>\<open>equals\<close> returns true on every option of the other (in any order
  of the other's options).
\<close>

theorem Union_equals_characterised:
  "(kind_of other \<notin> {KAlias, KUnion} \<longrightarrow>
      (equals tnull (Union i n os) other = Inr True \<longleftrightarrow>
         (\<exists>k<length os. equals tnull (os ! k) other = Inr True \<and>
              (\<forall>j<k. equals tnull (os ! j) other = Inr False))))
   \<and> (equals tnull (Union i n os) (Union j m qs) = Inr True \<longleftrightarrow>
         i = j \<or> (length qs = length os \<and>
                  (\<forall>q\<in>set qs. equals tnull (Union i n os) q = Inr True)))"
proof (intro conjI impI)
  assume "kind_of other \<notin> {KAlias, KUnion}"
  then have "equals tnull (Union i n os) other = some_equals tnull os other"
    by (cases other) simp_all
  then show "equals tnull (Union i n os) other = Inr True \<longleftrightarrow>
         (\<exists>k<length os. equals tnull (os ! k) other = Inr True \<and>
              (\<forall>j<k. equals tnull (os ! j) other = Inr False))"
    by (simp only: some_equals_true)
next
  show "equals tnull (Union i n os) (Union j m qs) = Inr True \<longleftrightarrow>
         i = j \<or> (length qs = length os \<and>
                  (\<forall>q\<in>set qs. equals tnull (Union i n os) q = Inr True))"
  proof -
    have "equals tnull (Union i n os) (Union j m qs) =
            (if i = j then Inr True
             else if length qs \<noteq> length os then Inr False
             else includesAll_loop tnull (Union i n os) qs)"
      by simp
    then show ?thesis
      by (simp only: includesAll_loop_true split: if_splits) auto
  qed
qed

theorem Union_equals_characterised_witness:
  "kind_of Type_string \<notin> {KAlias, KUnion}
   \<and> equals Type_null union_V Type_string = Inr True
   \<and> equals Type_null ([Type_number, Type_string] ! 1) Type_string = Inr True
   \<and> equals Type_null ([Type_number, Type_string] ! 0) Type_string = Inr False
   \<and> equals Type_null union_V union_W = Inr True"
  using Union_equals_characterised
    [of Type_string Type_null 1 "Str ''V''" "[Type_number, Type_string]" 2 "Str ''W''"
        "[Type_number, Type_string]"]
  by (simp add: example_types)

section \<open>Function calls\<close>

lemma check_args_ok:
  "length ps = length as \<Longrightarrow>
   check_args tany tn ps as = Inr () \<longleftrightarrow>
   (\<forall>i<length as. same_object (ps ! i) tany \<or> equals tn (as ! i) (ps ! i) = Inr True)"
proof (induction ps as rule: list_induct2)
  case Nil
  then show ?case by simp
next
  case (Cons p ps a as)
  show ?case
    using Cons.IH
    by (auto simp: expect_def Let_def less_Suc_eq_0_disj split: sum.splits bool.splits)
qed

text \<open>
  What \<^verbatim>\<open>_checkFunctionCall\<close> does for a callee that is a Function type, with
  \<open>tany\<close> the value of \<^verbatim>\<open>Type.any\<close> at the time of the call: a different number of
  arguments fails with the arity error; with the same number, the call returns the
  Function's return type exactly when every parameter is the object \<open>tany\<close> or the
  argument's \<^verbatim>\<open>equals\<close> against the parameter returns true, and it returns no other
  type.
\<close>

lemma checkFunctionCall_Function:
  "(length ps \<noteq> length as \<longrightarrow>
      checkFunctionCall tany tn (Fn n ps r) as = Inl (ArityMismatch (length ps) (length as)))
   \<and> (length ps = length as \<longrightarrow>
        (checkFunctionCall tany tn (Fn n ps r) as = Inr r \<longleftrightarrow>
           (\<forall>i<length as. same_object (ps ! i) tany
                 \<or> equals tn (as ! i) (ps ! i) = Inr True))
        \<and> (\<forall>t. checkFunctionCall tany tn (Fn n ps r) as = Inr t \<longrightarrow> t = r))"
proof (intro conjI impI allI)
  assume "length ps \<noteq> length as"
  then show "checkFunctionCall tany tn (Fn n ps r) as
               = Inl (ArityMismatch (length ps) (length as))"
    by (simp add: checkFunctionCall_def)
next
  assume len: "length ps = length as"
  then have "checkFunctionCall tany tn (Fn n ps r) as = Inr r
               \<longleftrightarrow> check_args tany tn ps as = Inr ()"
    by (simp add: checkFunctionCall_def split: sum.splits)
  with len show "checkFunctionCall tany tn (Fn n ps r) as = Inr r \<longleftrightarrow>
           (\<forall>i<length as. same_object (ps ! i) tany
                 \<or> equals tn (as ! i) (ps ! i) = Inr True)"
    by (simp add: check_args_ok)
next
  fix t
  assume "length ps = length as" "checkFunctionCall tany tn (Fn n ps r) as = Inr t"
  then show "t = r"
    by (simp add: checkFunctionCall_def split: sum.splits)
qed

text \<open>
  Claim C7 (in a call of a Function type, a parameter declared \<open>any\<close> accepts an
  argument of any type).  The parameter of \<open>typeof\<close> is declared \<open>any\<close>, and
  \<^verbatim>\<open>(typeof "a")\<close> checks to \<open>string\<close>.  After \<^verbatim>\<open>(type any (or number))\<close>, which the
  union form of the type declaration accepts although \<open>any\<close> is registered, the
  property \<^verbatim>\<open>Type.any\<close> is the new Union; the parameter of \<open>typeof\<close> is no longer
  that object, and the same call fails with a type mismatch.
\<close>

theorem any_parameter_rejected:
  "fst (session (8 + k) [typeof_call]) = Inr Type_string
   \<and> lookup (snd (session (8 + k) [type_any_union])) 0 ''typeof''
       = Inr (Fn (Str ''Fn<string<any>>'') [Type_any] Type_string)
   \<and> typeProp (snd (session (8 + k) [type_any_union])) ''any''
       = Union 0 (Str ''any'') [Type_number]
   \<and> fst (session (8 + k) [type_any_union, typeof_call])
       = Inl (TypeMismatch Type_any Type_string)"
  unfolding fuel8 by code_simp

section \<open>Aliases\<close>

lemma alias_sessions:
  "fst (session (8 + k) [type_int_number]) = Inr (alias_chain [Str ''int''] Type_number)
   \<and> registry (snd (session (8 + k) [type_int_number])) ''int''
       = Some (alias_chain [Str ''int''] Type_number)
   \<and> fst (session (8 + k) [type_int_number,
          List [Str ''var'', List [Str ''x'', Str ''int''], Num ''5''],
          List [Str ''square'', Str ''x'']]) = Inr Type_number
   \<and> fst (session (8 + k) [type_int_number,
          List [Str ''def'', Str ''f'', List [List [Str ''a'', Str ''int'']],
                Str ''->'', Str ''number'', Str ''a''],
          List [Str ''f'', Num ''5'']]) = Inr Type_number"
  unfolding fuel8 by code_simp

text \<open>
  Claim C5.  \<^verbatim>\<open>(type int number)\<close> registers the alias \<open>int\<close> of \<open>number\<close>.  An
  alias, through any chain of aliases, of a primitive type equals that type and
  every other alias chain of it, in both directions; so \<^verbatim>\<open>_expect\<close> accepts either
  for the other, a call accepts an argument of either type for a parameter of the
  other, a variable declared \<open>int\<close> is accepted by \<open>square\<close>, which expects
  \<open>number\<close>, and a number is accepted by a function whose parameter is \<open>int\<close> and
  whose declared return type \<open>number\<close> is met by an \<open>int\<close> body.
\<close>

theorem alias_equals_base:
  "equals tnull (alias_chain ns (Prim b)) (alias_chain ms (Prim b)) = Inr True
   \<and> expect tnull (alias_chain ns (Prim b)) (Prim b) = Inr (alias_chain ns (Prim b))
   \<and> expect tnull (Prim b) (alias_chain ns (Prim b)) = Inr (Prim b)
   \<and> checkFunctionCall tany tnull (Fn n [Prim b] r) [alias_chain ns (Prim b)] = Inr r
   \<and> checkFunctionCall tany tnull (Fn n [alias_chain ns (Prim b)] r) [Prim b] = Inr r
   \<and> fst (session (8 + k) [type_int_number]) = Inr (alias_chain [Str ''int''] Type_number)
   \<and> registry (snd (session (8 + k) [type_int_number])) ''int''
       = Some (alias_chain [Str ''int''] Type_number)
   \<and> fst (session (8 + k) [type_int_number,
          List [Str ''var'', List [Str ''x'', Str ''int''], Num ''5''],
          List [Str ''square'', Str ''x'']]) = Inr Type_number
   \<and> fst (session (8 + k) [type_int_number,
          List [Str ''def'', Str ''f'', List [List [Str ''a'', Str ''int'']],
                Str ''->'', Str ''number'', Str ''a''],
          List [Str ''f'', Num ''5'']]) = Inr Type_number"
proof -
  have root: "simple_root (Prim b)" by (simp add: simple_root_def)
  have ab: "equals tnull (alias_chain ns (Prim b)) (Prim b) = Inr True"
    by (rule chain_root_true [OF root])
  have ba: "equals tnull (Prim b) (alias_chain ns (Prim b)) = Inr True"
    using same_root_true [OF root, of tnull "[]" ns] by simp
  have e1: "expect tnull (alias_chain ns (Prim b)) (Prim b) = Inr (alias_chain ns (Prim b))"
    by (simp only: expect_def ab) simp
  have e2: "expect tnull (Prim b) (alias_chain ns (Prim b)) = Inr (Prim b)"
    by (simp only: expect_def ba) simp
  have c1: "checkFunctionCall tany tnull (Fn n [Prim b] r) [alias_chain ns (Prim b)] = Inr r"
    by (simp add: checkFunctionCall_def e1 Let_def)
  have c2: "checkFunctionCall tany tnull (Fn n [alias_chain ns (Prim b)] r) [Prim b] = Inr r"
    by (simp add: checkFunctionCall_def e2 Let_def)
  show ?thesis
    using same_root_true [OF root, of tnull ns ms] e1 e2 c1 c2 alias_sessions by blast
qed

section \<open>Type and class declarations\<close>

text \<open>
  Claim C9 (declaring a type or a class under a registered name fails with the
  duplicate-declaration error instead of overwriting).  After \<^verbatim>\<open>(type int number)\<close>,
  the alias form \<^verbatim>\<open>(type int string)\<close> fails as claimed, but the union form
  \<^verbatim>\<open>(type int (or number string))\<close> and \<^verbatim>\<open>(class int null (begin))\<close> succeed and
  replace the registered alias.
\<close>

theorem redeclaration_overwrites:
  "fst (session (8 + k) [type_int_number, List [Str ''type'', Str ''int'', Str ''string'']])
     = Inl (DuplicateTypeDeclaration ''int'')
   \<and> fst (session (8 + k) [type_int_number,
            List [Str ''type'', Str ''int'', List [Str ''or'', Str ''number'', Str ''string'']]])
     = Inr (Union 0 (Str ''int'') [Type_number, Type_string])
   \<and> registry (snd (session (8 + k) [type_int_number,
            List [Str ''type'', Str ''int'', List [Str ''or'', Str ''number'', Str ''string'']]]))
        ''int''
     = Some (Union 0 (Str ''int'') [Type_number, Type_string])
   \<and> fst (session (8 + k) [type_int_number,
            List [Str ''class'', Str ''int'', Str ''null'', List [Str ''begin'']]])
     = Inr (Class 1 (Str ''int'') Type_null)
   \<and> registry (snd (session (8 + k) [type_int_number,
            List [Str ''class'', Str ''int'', Str ''null'', List [Str ''begin'']]])) ''int''
     = Some (Class 1 (Str ''int'') Type_null)"
  unfolding fuel8 by code_simp

section \<open>Recursive and generic functions\<close>

text \<open>
  Claim C8 (the recursive declaration of \<open>fact\<close> checks to \<open>Fn<number<number>>\<close>
  because \<^verbatim>\<open>def\<close> registers the signature first).  The signature is registered in
  the global environment, under a Function without a name; but the body is checked in
  the parameter environment, whose \<^verbatim>\<open>lookup\<close> does not reach the global one, and
  the check ends with the ReferenceError for \<open>fact\<close>.
\<close>

theorem recursive_def_fails:
  "fst (session (8 + k) [def_fact]) = Inl (UndefinedName ''fact'')
   \<and> lookup (snd (session (8 + k) [def_fact])) 0 ''fact'' = Inr (Fn Null [Type_number] Type_number)"
  unfolding fuel8 by code_simp

text \<open>
  Claim C2 (after \<^verbatim>\<open>(def id <T> ((x T)) -> T x)\<close>, the call \<^verbatim>\<open>(id <number> 5)\<close>
  returns \<open>number\<close>, \<^verbatim>\<open>(id <string> "a")\<close> returns \<open>string\<close>, and a call without
  the bracketed types raises the missing-types error).  The last part holds; the two
  instantiating calls throw a TypeError, because the GenericFunction object has no
  property \<^verbatim>\<open>genericTypes\<close>.
\<close>

theorem generic_call_throws:
  "fst (session (8 + k) [def_id, List [Str ''id'', Str ''<number>'', Num ''5'']]) = Inl JSTypeError
   \<and> fst (session (8 + k) [def_id, List [Str ''id'', Str ''<string>'', quoted ''a'']])
       = Inl JSTypeError
   \<and> fst (session (8 + k) [def_id, List [Str ''id'', Num ''5'']]) = Inl MissingGenericActualTypes"
  unfolding fuel8 by code_simp

section \<open>Narrowing in \<^verbatim>\<open>if\<close>\<close>

text \<open>
  Claim C6 (narrowing happens for the exact shape \<^verbatim>\<open>(== (typeof name) "TypeName")\<close>;
  for any other condition both branches are checked in the original environment).
  The doc comments of \<^verbatim>\<open>_isTypeCastCondition\<close> and \<^verbatim>\<open>_getSpecifiedType\<close> give that
  shape and speak of stripping the quotes, but the test never looks at the third
  element and \<^verbatim>\<open>slice(1, -1)\<close> strips whatever is there.

  \<^item> In \<^verbatim>\<open>(if (== (typeof x) sbooleans) (== x true) false)\<close> the third element is
    a variable, not a string literal; still the consequent is checked in the new
    environment 1, where \<open>x\<close> is \<open>boolean\<close> (the name \<open>sbooleans\<close> without its
    first and last character), and the program checks.  In the original environment
    0, where \<open>x\<close> is \<open>number\<close>, the consequent is a type mismatch.
  \<^item> \<^verbatim>\<open>(if (== (typeof x) (typeof x)) 1 2)\<close>, whose branches need no environment at
    all, is rejected with the unknown type of the empty name.
\<close>

theorem narrowing_ignores_third_element:
  "\<not> isString (idx loose_condition 2)
   \<and> fst (session (8 + k) (narrowing_decls @ [loose_if])) = Inr Type_boolean
   \<and> fst (consequentEnv loose_condition 0 (snd (session (8 + k) narrowing_decls))) = Inr 1
   \<and> recordOf (envs (snd (consequentEnv loose_condition 0
                             (snd (session (8 + k) narrowing_decls)))) 1) ''x''
       = Some Type_boolean
   \<and> fst (tc (8 + k) loose_consequent 1
            (snd (consequentEnv loose_condition 0 (snd (session (8 + k) narrowing_decls)))))
       = Inr Type_boolean
   \<and> fst (tc (8 + k) loose_consequent 0 (snd (session (8 + k) narrowing_decls)))
       = Inl (TypeMismatch Type_number Type_boolean)
   \<and> fst (session (8 + k) (narrowing_decls @ [typeof_twice_if])) = Inl (UnknownType [])"
  unfolding fuel8 by code_simp

end
